theory Spec2Isabelle
  imports Complex_Main
begin

section \<open>Activities (activities.ts, lines 1-392)\<close>

subsection \<open>Values thrown by the code\<close>

text \<open>
  Every \<^verbatim>\<open>throw\<close> of the source is a value of this type. \<open>Error m\<close> is
  \<^verbatim>\<open>new Error(m)\<close>; \<open>ReferenceError x\<close> is what JavaScript raises when the
  identifier \<open>x\<close> is read in a scope that does not declare it; \<open>ActivityFailure c\<close> is
  what a workflow receives from the activity proxy when the activity failed for good with
  cause \<open>c\<close>; \<open>TimeoutFailure\<close> is the failure of an attempt of an activity that did
  not complete within its start-to-close timeout (10 minutes, line 422).
\<close>

datatype error =
  Error string | ReferenceError string | ActivityFailure error | TimeoutFailure

fun message :: "error \<Rightarrow> string" where
  "message (Error m) = m"
| "message (ReferenceError x) = x @ '' is not defined''"
| "message (ActivityFailure cause) = ''Activity task failed''"
| "message TimeoutFailure = ''activity StartToClose timeout''"

subsection \<open>Decimal rendering of numbers in template strings\<close>

function string_of_nat :: "nat \<Rightarrow> string" where
  "string_of_nat n =
     (if n < 10 then [char_of (48 + n)]
      else string_of_nat (n div 10) @ [char_of (48 + n mod 10)])"
  by pat_completeness auto
termination
  by (relation "measure id") auto

declare string_of_nat.simps [simp del]

subsection \<open>estimateTokens, calculateCost (lines 351-367)\<close>

text \<open>
  \<^verbatim>\<open>Math.ceil(text.length / 4)\<close>. The length of a string is a natural number, so the
  ceiling of the quotient is \<open>(n + 3) div 4\<close>.
\<close>

definition estimateTokens :: "string \<Rightarrow> nat" where
  "estimateTokens text = (length text + 3) div 4"

text \<open>
  The pricing table, per 1K tokens. A model that is not in the table gets the rates of
  \<^verbatim>\<open>claude-sonnet-4-5\<close>. Costs are JavaScript doubles in the source; here they are
  exact reals.
\<close>

definition pricing :: "string \<Rightarrow> (real \<times> real) option" where
  "pricing m =
     (if m = ''claude-sonnet-4-5'' then Some (3 / 1000, 15 / 1000)
      else if m = ''claude-opus-4'' then Some (15 / 1000, 75 / 1000)
      else None)"

definition calculateCost :: "nat \<Rightarrow> string \<Rightarrow> real" where
  "calculateCost tokens m =
     (let rates = (case pricing m of Some r \<Rightarrow> r | None \<Rightarrow> the (pricing ''claude-sonnet-4-5''))
      in (real tokens / 1000) * ((fst rates + snd rates) / 2))"

subsection \<open>parseTestResults, runTests (lines 115-160, 369-392)\<close>

text \<open>
  The values \<^verbatim>\<open>JSON.parse\<close> can return. \<open>JUndefined\<close> is not a JSON value: it is what
  reading a missing property yields.
\<close>

datatype json =
    JUndefined
  | JNull
  | JBool bool
  | JNum real
  | JStr string
  | JArr "json list"
  | JObj "(string \<times> json) list"

text \<open>JavaScript truthiness, as \<^verbatim>\<open>||\<close> tests it.\<close>

fun truthy :: "json \<Rightarrow> bool" where
  "truthy JUndefined = False"
| "truthy JNull = False"
| "truthy (JBool b) = b"
| "truthy (JNum n) = (n \<noteq> 0)"
| "truthy (JStr s) = (s \<noteq> [])"
| "truthy (JArr _) = True"
| "truthy (JObj _) = True"

definition js_or :: "json \<Rightarrow> json \<Rightarrow> json" where
  "js_or a b = (if truthy a then a else b)"

text \<open>
  \<^verbatim>\<open>v.key\<close>: a TypeError (\<open>None\<close>) on \<^verbatim>\<open>null\<close> and \<^verbatim>\<open>undefined\<close>, the member of an
  object, and \<^verbatim>\<open>undefined\<close> on every primitive and on an array (the keys read by the source
  are not array members).
\<close>

fun getProp :: "json \<Rightarrow> string \<Rightarrow> json option" where
  "getProp JUndefined k = None"
| "getProp JNull k = None"
| "getProp (JObj kvs) k = (case map_of kvs k of Some v \<Rightarrow> Some v | None \<Rightarrow> Some JUndefined)"
| "getProp _ k = Some JUndefined"

text \<open>\<^verbatim>\<open>ts.map(t => t.message)\<close> on an array; the first TypeError aborts the map.\<close>

fun mapMessage :: "json list \<Rightarrow> json list option" where
  "mapMessage [] = Some []"
| "mapMessage (t # ts) =
     (case getProp t ''message'' of
        None \<Rightarrow> None
      | Some m \<Rightarrow> (case mapMessage ts of None \<Rightarrow> None | Some ms \<Rightarrow> Some (m # ms)))"

text \<open>
  \<^verbatim>\<open>json.testResults?.map((t) => t.message) || []\<close>. The optional chain stops at
  \<^verbatim>\<open>null\<close> and \<^verbatim>\<open>undefined\<close>; an array is mapped (and, being an array, is truthy even
  when empty); any other value has no callable \<^verbatim>\<open>map\<close> and the call is a TypeError,
  as is an object whose \<^verbatim>\<open>map\<close> member is JSON data.
\<close>

fun testResultsErrors :: "json \<Rightarrow> json list option" where
  "testResultsErrors JUndefined = Some []"
| "testResultsErrors JNull = Some []"
| "testResultsErrors (JArr ts) = mapMessage ts"
| "testResultsErrors _ = None"

record ParsedTests =
  totalTests :: json
  passed :: json
  failed :: json
  errors :: "json list"

definition parseFallback :: ParsedTests where
  "parseFallback =
     \<lparr>totalTests = JNum 0, passed = JNum 0, failed = JNum 0,
      errors = [JStr ''Failed to parse test results'']\<rparr>"

text \<open>
  The body of the \<^verbatim>\<open>try\<close> of parseTestResults on a parsed value; \<open>None\<close> is a
  TypeError raised inside it.
\<close>

definition parseFields :: "json \<Rightarrow> ParsedTests option" where
  "parseFields j =
     (case getProp j ''numTotalTests'' of None \<Rightarrow> None | Some t \<Rightarrow>
      case getProp j ''numPassedTests'' of None \<Rightarrow> None | Some p \<Rightarrow>
      case getProp j ''numFailedTests'' of None \<Rightarrow> None | Some f \<Rightarrow>
      case getProp j ''testResults'' of None \<Rightarrow> None | Some r \<Rightarrow>
      case testResultsErrors r of None \<Rightarrow> None | Some es \<Rightarrow>
        Some \<lparr>totalTests = js_or t (JNum 0), passed = js_or p (JNum 0),
              failed = js_or f (JNum 0), errors = es\<rparr>)"

text \<open>
  \<^verbatim>\<open>JSON.parse\<close> is the parameter \<open>parse\<close>: \<open>None\<close> is its SyntaxError. Both the
  SyntaxError and a TypeError of the field reads land in the \<^verbatim>\<open>catch\<close>.
\<close>

definition parseTestResults :: "(string \<Rightarrow> json option) \<Rightarrow> string \<Rightarrow> ParsedTests" where
  "parseTestResults parse output =
     (case parse output of
        None \<Rightarrow> parseFallback
      | Some j \<Rightarrow> (case parseFields j of None \<Rightarrow> parseFallback | Some r \<Rightarrow> r))"

text \<open>What \<^verbatim>\<open>execAsync('npm test -- --json --coverage')\<close> does: reject, or resolve with stdout.\<close>

datatype npmRun = CommandFailed string | Stdout string

record TestResult =
  success :: bool
  tr_totalTests :: json
  tr_passed :: json
  tr_failed :: json
  tr_duration :: nat
  tr_errors :: "json list"

text \<open>\<open>elapsed\<close> is \<^verbatim>\<open>Date.now() - startTime\<close>. \<^verbatim>\<open>result.failed === 0\<close> is strict equality with the number 0.\<close>

definition runTests :: "(string \<Rightarrow> json option) \<Rightarrow> npmRun \<Rightarrow> nat \<Rightarrow> TestResult" where
  "runTests parse run elapsed =
     (case run of
        Stdout out \<Rightarrow>
          (let result = parseTestResults parse out
           in \<lparr>success = (failed result = JNum 0),
               tr_totalTests = totalTests result, tr_passed = passed result,
               tr_failed = failed result, tr_duration = elapsed,
               tr_errors = errors result\<rparr>)
      | CommandFailed msg \<Rightarrow>
          \<lparr>success = False, tr_totalTests = JNum 0, tr_passed = JNum 0,
           tr_failed = JNum 1, tr_duration = elapsed, tr_errors = [JStr msg]\<rparr>)"

subsection \<open>createSnapshot (lines 201-220)\<close>

text \<open>
  The repository the two git commands work on: the files of the working directory, the
  staged files, and the commits (message and files), the newest last.
\<close>

type_synonym tree = "(string \<times> string) list"

record repo =
  workTree :: tree
  staged :: tree
  commits :: "(string \<times> tree) list"

definition headTree :: "repo \<Rightarrow> tree" where
  "headTree g = (case commits g of [] \<Rightarrow> [] | _ \<Rightarrow> snd (last (commits g)))"

text \<open>
  \<^verbatim>\<open>git add -A\<close> stages the working directory. \<open>ok\<close> says whether the command can run
  at all (the directory is a repository, no lock is held, and so on); \<open>None\<close> is its
  failure.
\<close>

definition gitAddAll :: "bool \<Rightarrow> repo \<Rightarrow> repo option" where
  "gitAddAll ok g = (if ok then Some (g\<lparr>staged := workTree g\<rparr>) else None)"

text \<open>
  \<^verbatim>\<open>git commit -m msg\<close> commits the staged files. Without \<^verbatim>\<open>--allow-empty\<close> it fails
  when nothing is staged that differs from the last commit.
\<close>

definition gitCommit :: "bool \<Rightarrow> bool \<Rightarrow> string \<Rightarrow> repo \<Rightarrow> repo option" where
  "gitCommit ok allowEmpty msg g =
     (if \<not> ok then None
      else if \<not> allowEmpty \<and> staged g = headTree g then None
      else Some (g\<lparr>commits := commits g @ [(msg, staged g)]\<rparr>))"

text \<open>
  \<open>now\<close> is \<^verbatim>\<open>Date.now()\<close>; \<open>addOk\<close> and \<open>commitOk\<close> say whether the two git
  commands can run; \<open>g\<close> is the repository before the call. The result is the returned
  id and the repository after the call. The \<^verbatim>\<open>catch\<close> returns the id as well: "Return
  ID anyway for tracking".
\<close>

definition createSnapshot :: "nat \<Rightarrow> bool \<Rightarrow> bool \<Rightarrow> repo \<Rightarrow> string \<times> repo" where
  "createSnapshot now addOk commitOk g =
     (let snapshotId = ''snapshot-'' @ string_of_nat now
      in case gitAddAll addOk g of
           None \<Rightarrow> (snapshotId, g)
         | Some g1 \<Rightarrow>
             (case gitCommit commitOk True (''Snapshot: '' @ snapshotId) g1 of
                None \<Rightarrow> (snapshotId, g1)
              | Some g2 \<Rightarrow> (snapshotId, g2)))"

subsection \<open>executeClaudeCode (lines 40-108)\<close>

text \<open>
  One run of the body. \<open>ClaudeFailed m\<close>: the \<^verbatim>\<open>claude\<close> command rejects with message
  \<open>m\<close>. \<open>ClaudeOk\<close>: it resolves; its fields are stdout, stderr, the changed files
  (getChangedFiles), the additions and deletions (parseGitStats) and the elapsed
  milliseconds. getGitStatus and getGitDiff swallow their own errors.
\<close>

datatype claudeRun =
    ClaudeFailed string
  | ClaudeOk string string "string list" nat nat nat

record ClaudeCodeResult =
  outputText :: string
  tokensUsed :: nat
  cost :: real
  duration :: nat
  filesModified :: "string list"
  linesAdded :: nat
  linesRemoved :: nat

fun executeClaudeCode :: "string \<Rightarrow> claudeRun \<Rightarrow> error + ClaudeCodeResult" where
  "executeClaudeCode prompt (ClaudeFailed msg) =
     Inl (Error (''Claude Code execution failed: '' @ msg))"
| "executeClaudeCode prompt (ClaudeOk stdout stderr files additions deletions elapsed) =
     (let out = (if stdout \<noteq> [] then stdout else stderr);
          tokens = estimateTokens (prompt @ out)
      in Inr \<lparr>outputText = out, tokensUsed = tokens,
               cost = calculateCost tokens ''claude-sonnet-4-5'',
               duration = elapsed, filesModified = files,
               linesAdded = additions, linesRemoved = deletions\<rparr>)"

subsection \<open>estimateCost (lines 167-194)\<close>

datatype complexity = Low | Medium | High

fun completionMultiplier :: "complexity \<Rightarrow> nat" where
  "completionMultiplier Low = 2"
| "completionMultiplier Medium = 4"
| "completionMultiplier High = 8"

record CostEstimate =
  estimated :: real
  model :: string
  tokensEstimate :: nat

definition estimateCost :: "string \<Rightarrow> complexity \<Rightarrow> CostEstimate" where
  "estimateCost prompt c =
     (let promptTokens = estimateTokens prompt;
          estimatedCompletionTokens = promptTokens * completionMultiplier c;
          totalTokens = promptTokens + estimatedCompletionTokens
      in \<lparr>estimated = calculateCost totalTokens ''claude-sonnet-4-5'',
          model = ''claude-sonnet-4-5'', tokensEstimate = totalTokens\<rparr>)"

subsection \<open>captureMetrics (lines 256-280)\<close>

text \<open>
  The shapes of record the workflows capture: the per-stage record (stage, tokensUsed,
  cost, duration, filesModified, linesAdded, linesRemoved, testsPass), the record of
  the \<^verbatim>\<open>catch\<close> (stage, error, tokensUsedBeforeFailure, costBeforeFailure) and the
  record of a feature branch (feature, branch, tokensUsed, testsPassing).
\<close>

datatype metrics =
    StageMetrics string nat real nat nat nat nat bool
  | FailureMetrics string string nat real
  | FeatureMetrics string string nat bool

text \<open>\<^verbatim>\<open>fs.appendFile\<close> either succeeds or rejects with a message, which propagates.\<close>

fun captureMetrics :: "metrics \<Rightarrow> string option \<Rightarrow> error + unit" where
  "captureMetrics data None = Inr ()"
| "captureMetrics data (Some msg) = Inl (Error msg)"

section \<open>The activity proxy (lines 413-428)\<close>

text \<open>
  \<^verbatim>\<open>proxyActivities\<close> runs an activity under the retry policy it is given: a failed
  attempt is retried until an attempt succeeds or \<open>maximumAttempts\<close> attempts were made,
  unless the error's type is listed as non-retryable. The options of the source list no
  such type, and every error the activities throw is a plain \<^verbatim>\<open>Error\<close>.
\<close>

record RetryPolicy =
  initialInterval :: nat
  backoffCoefficient :: nat
  maximumAttempts :: nat
  nonRetryableErrorTypes :: "string list"

definition retry :: RetryPolicy where
  "retry = \<lparr>initialInterval = 2000, backoffCoefficient = 2, maximumAttempts = 3,
            nonRetryableErrorTypes = []\<rparr>"

fun errorType :: "error \<Rightarrow> string" where
  "errorType (Error _) = ''Error''"
| "errorType (ReferenceError _) = ''ReferenceError''"
| "errorType (ActivityFailure _) = ''ActivityFailure''"
| "errorType TimeoutFailure = ''TimeoutFailure''"

text \<open>
  \<open>attempts pol f k r\<close>: attempt number \<open>k\<close> is \<open>f k\<close>, with \<open>r\<close> further attempts
  allowed. The result is the number of attempts made and the outcome of the last one.
\<close>

fun attempts :: "RetryPolicy \<Rightarrow> (nat \<Rightarrow> error + 'a) \<Rightarrow> nat \<Rightarrow> nat \<Rightarrow> nat \<times> (error + 'a)" where
  "attempts pol f k 0 = (k, f k)"
| "attempts pol f k (Suc r) =
     (case f k of
        Inr v \<Rightarrow> (k, Inr v)
      | Inl e \<Rightarrow>
          if errorType e \<in> set (nonRetryableErrorTypes pol) then (k, Inl e)
          else attempts pol f (Suc k) r)"

text \<open>The source sets \<open>maximumAttempts\<close> to 3; attempts are numbered from 1.\<close>

definition proxy :: "RetryPolicy \<Rightarrow> (nat \<Rightarrow> error + 'a) \<Rightarrow> nat \<times> (error + 'a)" where
  "proxy pol f = attempts pol f 1 (maximumAttempts pol - 1)"

section \<open>The workflow developLLMWrapperWorkflow (lines 393-669)\<close>

subsection \<open>Stages, workflow state, signals\<close>

record DevelopmentStage =
  name :: string
  prompt :: string
  requiresApproval :: bool
  criticalPath :: bool

record WorkflowState =
  currentStage :: string
  totalTokensUsed :: nat
  totalCost :: real
  testsPassedCount :: nat
  snapshots :: "string list"
  approved :: "bool option"

definition initialState :: WorkflowState where
  "initialState =
     \<lparr>currentStage = ''initializing'', totalTokensUsed = 0, totalCost = 0,
      testsPassedCount = 0, snapshots = [], approved = None\<rparr>"

datatype signal = Approve | Reject

text \<open>The two handlers installed by \<^verbatim>\<open>setHandler\<close> (lines 474-476).\<close>

fun handler :: "signal \<Rightarrow> WorkflowState \<Rightarrow> WorkflowState" where
  "handler Approve s = s\<lparr>approved := Some True\<rparr>"
| "handler Reject s = s\<lparr>approved := Some False\<rparr>"

text \<open>Signals are handled one at a time, in the order of their delivery.\<close>

definition deliver :: "signal list \<Rightarrow> WorkflowState \<Rightarrow> WorkflowState" where
  "deliver sigs s = foldl (\<lambda>s' sg. handler sg s') s sigs"

definition nl :: string where
  "nl = [CHR 0x0A]"

text \<open>The stage list of the source (lines 478-545).\<close>

definition stages :: "string \<Rightarrow> DevelopmentStage list" where
  "stages projectPath = [
    \<lparr>name = ''scaffold'',
      prompt =
          ''Create a TypeScript LLM wrapper library with:'' @ nl @
          ''        - Support for OpenAI, Anthropic, and local models'' @ nl @
          ''        - Type-safe interfaces'' @ nl @
          ''        - Streaming support'' @ nl @
          ''        - Error handling and retries'' @ nl @
          ''        - Cost tracking'' @ nl @
          ''        Setup project structure in '' @ projectPath,
      requiresApproval = False, criticalPath = True\<rparr>,
    \<lparr>name = ''core-implementation'',
      prompt =
          ''Implement core wrapper functionality:'' @ nl @
          ''        - Base LLMClient abstract class'' @ nl @
          ''        - OpenAI provider implementation'' @ nl @
          ''        - Anthropic provider implementation'' @ nl @
          ''        - Unified response format'' @ nl @
          ''        - Token counting utilities'',
      requiresApproval = True, criticalPath = True\<rparr>,
    \<lparr>name = ''streaming'',
      prompt =
          ''Add streaming support:'' @ nl @
          ''        - Server-sent events handling'' @ nl @
          ''        - Async iterators for streams'' @ nl @
          ''        - Backpressure handling'' @ nl @
          ''        - Stream cancellation'',
      requiresApproval = False, criticalPath = True\<rparr>,
    \<lparr>name = ''error-handling'',
      prompt =
          ''Implement robust error handling:'' @ nl @
          ''        - Custom error classes for different failure types'' @ nl @
          ''        - Exponential backoff with jitter'' @ nl @
          ''        - Circuit breaker pattern'' @ nl @
          ''        - Request timeout handling'' @ nl @
          ''        - Rate limit detection and retry'',
      requiresApproval = False, criticalPath = False\<rparr>,
    \<lparr>name = ''testing'',
      prompt =
          ''Create comprehensive test suite:'' @ nl @
          ''        - Unit tests for each provider'' @ nl @
          ''        - Integration tests with mock APIs'' @ nl @
          ''        - Streaming tests'' @ nl @
          ''        - Error handling tests'' @ nl @
          ''        - Edge case coverage'',
      requiresApproval = False, criticalPath = True\<rparr>,
    \<lparr>name = ''documentation'',
      prompt =
          ''Generate complete documentation:'' @ nl @
          ''        - README with quick start guide'' @ nl @
          ''        - API reference for all public methods'' @ nl @
          ''        - Usage examples for common scenarios'' @ nl @
          ''        - Migration guides'' @ nl @
          ''        - TypeScript type documentation'',
      requiresApproval = False, criticalPath = False\<rparr>]"

subsection \<open>What the workflow observes and does\<close>

text \<open>
  The calls a run makes, in order: the proxied activities, the approval wait
  (\<^verbatim>\<open>condition\<close> with its timeout in milliseconds) and the cooldown (\<^verbatim>\<open>sleep\<close>).
  These are all the activities the workflow has: a restore of a snapshot is not among them.
\<close>

datatype event =
    EstimateCost string complexity
  | CreateSnapshot
  | ExecuteClaudeCode string
  | RunTests
  | NotifyDeveloper string
  | AwaitCondition nat
  | CaptureMetrics metrics
  | Sleep nat

text \<open>
  What the outside world does during one stage: the signals handled from the start of the
  stage until its approval wait returns (until its end when it has no approval gate; a
  signal handled later in the stage counts for the next stage), whether each attempt of
  the estimateCost activity completes, the attempts of the createSnapshot activity, the
  runs of \<^verbatim>\<open>claude\<close> by attempt number, the run of the test command, and the outcome of
  appending the metrics record by attempt number.

  An attempt of createSnapshot either does not complete within the start-to-close timeout
  (a git command hangs), or runs: at the time \<open>now\<close>, with the two git commands able to
  run or not, on the repository as it is then.
\<close>

datatype snapshotRun = SnapshotTimedOut | SnapshotRan nat bool bool repo

record stageEnv =
  signals :: "signal list"
  estimateCostCompletes :: "nat \<Rightarrow> bool"
  snapshotRuns :: "nat \<Rightarrow> snapshotRun"
  claudeRuns :: "nat \<Rightarrow> claudeRun"
  testRun :: npmRun
  testElapsed :: nat
  metricsAppend :: "nat \<Rightarrow> string option"

record workflowEnv =
  parseJSON :: "string \<Rightarrow> json option"
  stageEnvs :: "nat \<Rightarrow> stageEnv"
  finalSignals :: "signal list"
  finalTestRun :: npmRun
  finalTestElapsed :: nat
  failureMetricsAppend :: "nat \<Rightarrow> string option"

text \<open>A run in progress: the workflow state and the calls made so far.\<close>

type_synonym run = "WorkflowState \<times> event list"

subsection \<open>One iteration of the stage loop (lines 548-639)\<close>

text \<open>
  Lines 549-564: current stage, cost estimate, snapshot before a critical stage.
  estimateCost and createSnapshot are proxied activities whose bodies never throw; such a
  call fails only when no attempt of the activity completes, and the failure is thrown at
  the \<^verbatim>\<open>await\<close>.
\<close>

fun snapshotAttempt :: "snapshotRun \<Rightarrow> error + string \<times> repo" where
  "snapshotAttempt SnapshotTimedOut = Inl TimeoutFailure"
| "snapshotAttempt (SnapshotRan now addOk commitOk g) = Inr (createSnapshot now addOk commitOk g)"

definition beginStage :: "stageEnv \<Rightarrow> DevelopmentStage \<Rightarrow> run \<Rightarrow> run \<times> error option" where
  "beginStage e st r =
     (let s = deliver (signals e) ((fst r)\<lparr>currentStage := name st\<rparr>);
          c = (if criticalPath st then High else Medium);
          evs = snd r @ [EstimateCost (prompt st) c]
      in case snd (proxy retry (\<lambda>k. if estimateCostCompletes e k
                                      then Inr (estimateCost (prompt st) c)
                                      else Inl TimeoutFailure)) of
           Inl err \<Rightarrow> ((s, evs), Some (ActivityFailure err))
         | Inr costEstimate \<Rightarrow>
             if criticalPath st then
               (case snd (proxy retry (\<lambda>k. snapshotAttempt (snapshotRuns e k))) of
                  Inl err \<Rightarrow> ((s, evs @ [CreateSnapshot]), Some (ActivityFailure err))
                | Inr snapshot \<Rightarrow>
                    ((s\<lparr>snapshots := snapshots s @ [fst snapshot]\<rparr>, evs @ [CreateSnapshot]),
                     None))
             else ((s, evs), None))"

text \<open>Lines 567-575: the proxied executeClaudeCode, then the totals.\<close>

definition executeStep ::
  "stageEnv \<Rightarrow> DevelopmentStage \<Rightarrow> run \<Rightarrow> run \<times> (error + ClaudeCodeResult)" where
  "executeStep e st r =
     (let evs = snd r @ [ExecuteClaudeCode (prompt st)]
      in case snd (proxy retry (\<lambda>k. executeClaudeCode (prompt st) (claudeRuns e k))) of
           Inl err \<Rightarrow> ((fst r, evs), Inl (ActivityFailure err))
         | Inr result \<Rightarrow>
             (((fst r)\<lparr>totalTokensUsed := totalTokensUsed (fst r) + tokensUsed result,
                        totalCost := totalCost (fst r) + cost result\<rparr>, evs),
              Inr result))"

text \<open>
  Lines 578-595: the tests after every stage but \<^verbatim>\<open>documentation\<close>. Where the source
  says it rolls back (lines 586-590) it logs the last snapshot and throws; it calls no
  activity.
\<close>

definition verifyStep ::
  "(string \<Rightarrow> json option) \<Rightarrow> stageEnv \<Rightarrow> DevelopmentStage \<Rightarrow> run \<Rightarrow> run \<times> error option" where
  "verifyStep parse e st r =
     (if name st \<noteq> ''documentation'' then
        (let testResult = runTests parse (testRun e) (testElapsed e);
             evs = snd r @ [RunTests]
         in if \<not> success testResult then
              (if criticalPath st \<and> length (snapshots (fst r)) > 0 then
                 ((fst r, evs), Some (Error (''Critical stage '' @ name st @ '' failed tests'')))
               else ((fst r, evs), None))
            else (((fst r)\<lparr>testsPassedCount := testsPassedCount (fst r) + 1\<rparr>, evs), None))
      else (r, None))"

text \<open>
  Lines 598-620. \<^verbatim>\<open>condition(() => state.approved !== null, '1 hour')\<close> returns true when
  a decision is recorded before the timeout and false when the hour elapses with none.
\<close>

definition approvalTimeout :: nat where
  "approvalTimeout = 3600000"

definition approvalStep :: "DevelopmentStage \<Rightarrow> run \<Rightarrow> run \<times> error option" where
  "approvalStep st r =
     (if requiresApproval st then
        (let evs = snd r @ [NotifyDeveloper (name st), AwaitCondition approvalTimeout];
             conditionMet = (approved (fst r) \<noteq> None)
         in if \<not> conditionMet \<or> approved (fst r) = Some False then
              ((fst r, evs), Some (Error (''Stage '' @ name st @ '' rejected by developer'')))
            else (((fst r)\<lparr>approved := None\<rparr>, evs), None))
      else (r, None))"

text \<open>
  Line 631: \<^verbatim>\<open>testsPass: stage.name === 'documentation' || testResult?.success\<close>.
  \<^verbatim>\<open>testResult\<close> is a \<^verbatim>\<open>const\<close> of the block of lines 578-595 and line 631 is outside
  that block, where no \<^verbatim>\<open>testResult\<close> is declared: reading it raises a ReferenceError
  (optional chaining guards a null value, not an undeclared name). The read is reached
  whenever the left operand is false.
\<close>

definition testsPass :: "string \<Rightarrow> error + bool" where
  "testsPass stageName =
     (if stageName = ''documentation'' then Inr True else Inl (ReferenceError ''testResult''))"

text \<open>Lines 623-632: the argument is built first, then the proxied captureMetrics runs.\<close>

definition metricsStep ::
  "stageEnv \<Rightarrow> DevelopmentStage \<Rightarrow> ClaudeCodeResult \<Rightarrow> run \<Rightarrow> run \<times> error option" where
  "metricsStep e st result r =
     (case testsPass (name st) of
        Inl err \<Rightarrow> (r, Some err)
      | Inr tp \<Rightarrow>
          (let data = StageMetrics (name st) (tokensUsed result) (cost result) (duration result)
                        (length (filesModified result)) (linesAdded result) (linesRemoved result) tp;
               evs = snd r @ [CaptureMetrics data]
           in case snd (proxy retry (\<lambda>k. captureMetrics data (metricsAppend e k))) of
                Inl err \<Rightarrow> ((fst r, evs), Some (ActivityFailure err))
              | Inr _ \<Rightarrow> ((fst r, evs), None)))"

text \<open>Lines 635-638.\<close>

definition cooldownStep :: "run \<Rightarrow> run" where
  "cooldownStep r =
     (if totalTokensUsed (fst r) > 50000 then (fst r, snd r @ [Sleep 30000]) else r)"

definition runStage ::
  "(string \<Rightarrow> json option) \<Rightarrow> stageEnv \<Rightarrow> DevelopmentStage \<Rightarrow> run \<Rightarrow> run \<times> error option" where
  "runStage parse e st r =
     (case beginStage e st r of
        (r0, Some err) \<Rightarrow> (r0, Some err)
      | (r0, None) \<Rightarrow>
     (case executeStep e st r0 of
        (r1, Inl err) \<Rightarrow> (r1, Some err)
      | (r1, Inr result) \<Rightarrow>
          (case verifyStep parse e st r1 of
             (r2, Some err) \<Rightarrow> (r2, Some err)
           | (r2, None) \<Rightarrow>
               (case approvalStep st r2 of
                  (r3, Some err) \<Rightarrow> (r3, Some err)
                | (r3, None) \<Rightarrow>
                    (case metricsStep e st result r3 of
                       (r4, Some err) \<Rightarrow> (r4, Some err)
                     | (r4, None) \<Rightarrow> (cooldownStep r4, None))))))"

subsection \<open>The loop, the final validation and the catch (lines 547-668)\<close>

fun stageLoop ::
  "(string \<Rightarrow> json option) \<Rightarrow> (nat \<Rightarrow> stageEnv) \<Rightarrow> nat \<Rightarrow> DevelopmentStage list \<Rightarrow> run
     \<Rightarrow> run \<times> error option" where
  "stageLoop parse envs i [] r = (r, None)"
| "stageLoop parse envs i (st # sts) r =
     (case runStage parse (envs i) st r of
        (r1, Some err) \<Rightarrow> (r1, Some err)
      | (r1, None) \<Rightarrow> stageLoop parse envs (Suc i) sts r1)"

definition tryBlock :: "workflowEnv \<Rightarrow> DevelopmentStage list \<Rightarrow> run \<Rightarrow> run \<times> error option" where
  "tryBlock env sts r =
     (case stageLoop (parseJSON env) (stageEnvs env) 0 sts r of
        (r1, Some err) \<Rightarrow> (r1, Some err)
      | (r1, None) \<Rightarrow>
          (let finalTests = runTests (parseJSON env) (finalTestRun env) (finalTestElapsed env);
               r2 = (deliver (finalSignals env) (fst r1), snd r1 @ [RunTests])
           in if \<not> success finalTests then (r2, Some (Error ''Final test suite failed''))
              else (r2, None)))"

text \<open>
  The \<^verbatim>\<open>catch\<close>: the failure record is captured and the error is thrown again; when the
  capture itself fails, its failure is what leaves the workflow.
\<close>

definition catchBlock :: "workflowEnv \<Rightarrow> run \<Rightarrow> error \<Rightarrow> run \<times> error" where
  "catchBlock env r err =
     (let data = FailureMetrics (currentStage (fst r)) (message err)
                   (totalTokensUsed (fst r)) (totalCost (fst r));
          evs = snd r @ [CaptureMetrics data]
      in case snd (proxy retry (\<lambda>k. captureMetrics data (failureMetricsAppend env k))) of
           Inl err' \<Rightarrow> ((fst r, evs), ActivityFailure err')
         | Inr _ \<Rightarrow> ((fst r, evs), err))"

text \<open>
  The body of developLLMWrapperWorkflow over a stage list. \<open>None\<close>: the workflow returns
  the state (the instance completes). \<open>Some err\<close>: it throws \<open>err\<close> (the instance fails).
\<close>

definition runWorkflow :: "workflowEnv \<Rightarrow> DevelopmentStage list \<Rightarrow> run \<times> error option" where
  "runWorkflow env sts =
     (case tryBlock env sts (initialState, []) of
        (r, None) \<Rightarrow> (r, None)
      | (r, Some err) \<Rightarrow> (case catchBlock env r err of (r', err') \<Rightarrow> (r', Some err')))"

definition developLLMWrapperWorkflow :: "workflowEnv \<Rightarrow> string \<Rightarrow> run \<times> error option" where
  "developLLMWrapperWorkflow env projectPath = runWorkflow env (stages projectPath)"

section \<open>parallelFeatureDevelopment (lines 732-777)\<close>

text \<open>
  \<^verbatim>\<open>feature.replace(/\s+/g, '-')\<close>: every maximal run of whitespace becomes one dash.
  The whitespace characters are the ASCII ones here.
\<close>

definition isSpace :: "char \<Rightarrow> bool" where
  "isSpace c = (c \<in> set [CHR 0x09, CHR 0x0A, CHR 0x0B, CHR 0x0C, CHR 0x0D, CHR 0x20])"

function replaceSpaces :: "string \<Rightarrow> string" where
  "replaceSpaces [] = []"
| "replaceSpaces (c # cs) =
     (if isSpace c then CHR ''-'' # replaceSpaces (dropWhile isSpace cs)
      else c # replaceSpaces cs)"
  by pat_completeness auto
termination
  by (relation "measure length") (auto simp: less_Suc_eq_le length_dropWhile_le)

definition branchName :: "nat \<Rightarrow> string \<Rightarrow> string" where
  "branchName index feature = ''feature-'' @ string_of_nat index @ ''-'' @ replaceSpaces feature"

record branchEnv =
  createBranchRuns :: "nat \<Rightarrow> claudeRun"
  implementRuns :: "nat \<Rightarrow> claudeRun"
  branchTestRun :: npmRun
  branchTestElapsed :: nat
  branchMetricsAppend :: "nat \<Rightarrow> string option"

record FeatureResult =
  feature :: string
  branch :: string
  fr_success :: bool

text \<open>The async callback of \<^verbatim>\<open>features.map\<close>: \<open>Inl\<close> is a rejected promise.\<close>

definition featureBranch ::
  "(string \<Rightarrow> json option) \<Rightarrow> branchEnv \<Rightarrow> nat \<Rightarrow> string \<Rightarrow> error + FeatureResult" where
  "featureBranch parse e index f =
     (let b = branchName index f
      in case snd (proxy retry (\<lambda>k. executeClaudeCode
                     (''Create git branch '' @ b @ '' and switch to it'') (createBranchRuns e k))) of
           Inl err \<Rightarrow> Inl (ActivityFailure err)
         | Inr _ \<Rightarrow>
             (case snd (proxy retry (\<lambda>k. executeClaudeCode
                          (''Implement feature: '' @ f @ ''. Include tests.'') (implementRuns e k))) of
                Inl err \<Rightarrow> Inl (ActivityFailure err)
              | Inr result \<Rightarrow>
                  (let testResult = runTests parse (branchTestRun e) (branchTestElapsed e);
                       data = FeatureMetrics f b (tokensUsed result) (success testResult)
                   in case snd (proxy retry (\<lambda>k. captureMetrics data (branchMetricsAppend e k))) of
                        Inl err \<Rightarrow> Inl (ActivityFailure err)
                      | Inr _ \<Rightarrow> Inr \<lparr>feature = f, branch = b, fr_success = success testResult\<rparr>)))"

text \<open>
  \<^verbatim>\<open>Promise.all\<close>: fulfilled with all the values, in order, when every promise is
  fulfilled; rejected as soon as one promise is rejected. Which rejection it reports when
  several promises reject depends on their timing; this model reports the first in list
  order.
\<close>

fun Promise_all :: "(error + 'a) list \<Rightarrow> error + 'a list" where
  "Promise_all [] = Inr []"
| "Promise_all (Inl err # ps) = Inl err"
| "Promise_all (Inr v # ps) = (case Promise_all ps of Inl err \<Rightarrow> Inl err | Inr vs \<Rightarrow> Inr (v # vs))"

text \<open>
  The result is what the function returns (\<^verbatim>\<open>Promise<void>\<close>: nothing, or the rejection)
  and the per-feature records it prints under "Parallel Development Results".
\<close>

definition parallelFeatureDevelopment ::
  "(string \<Rightarrow> json option) \<Rightarrow> (nat \<Rightarrow> branchEnv) \<Rightarrow> string list
     \<Rightarrow> (error + unit) \<times> FeatureResult list" where
  "parallelFeatureDevelopment parse envs features =
     (let featurePromises =
            map (\<lambda>(index, f). featureBranch parse (envs index) index f)
                (zip [0..<length features] features)
      in case Promise_all featurePromises of
           Inl err \<Rightarrow> (Inl err, [])
         | Inr results \<Rightarrow> (Inr (), results))"

section \<open>Scenarios\<close>

text \<open>
  Concrete behaviours of the outside world, used to run the workflows. \<open>parseEmptyObject\<close>
  is \<^verbatim>\<open>JSON.parse\<close> on the one JSON text the scenarios print, the empty object (a
  report with no failed test); any other text is a SyntaxError.
\<close>

definition parseEmptyObject :: "string \<Rightarrow> json option" where
  "parseEmptyObject s = (if s = ''{}'' then Some (JObj []) else None)"

text \<open>
  A repository with no pending changes, and a stage during which every command succeeds
  and no signal arrives.
\<close>

definition cleanRepo :: repo where
  "cleanRepo =
     \<lparr>workTree = [(''README.md'', ''# project'')], staged = [(''README.md'', ''# project'')],
      commits = [(''initial commit'', [(''README.md'', ''# project'')])]\<rparr>"

definition calmStage :: stageEnv where
  "calmStage =
     \<lparr>signals = [], estimateCostCompletes = (\<lambda>k. True),
      snapshotRuns = (\<lambda>k. SnapshotRan 1700000000000 True True cleanRepo),
      claudeRuns = (\<lambda>k. ClaudeOk ''done'' [] [''src/index.ts''] 10 2 1500),
      testRun = Stdout ''{}'', testElapsed = 40, metricsAppend = (\<lambda>k. None)\<rparr>"

text \<open>A run of the workflow in which every command succeeds and no signal arrives.\<close>

definition calmEnv :: workflowEnv where
  "calmEnv =
     \<lparr>parseJSON = parseEmptyObject, stageEnvs = (\<lambda>i. calmStage), finalSignals = [],
      finalTestRun = Stdout ''{}'', finalTestElapsed = 40,
      failureMetricsAppend = (\<lambda>k. None)\<rparr>"

text \<open>The same stage when the test command fails.\<close>

definition failingTestsStage :: stageEnv where
  "failingTestsStage = calmStage\<lparr>testRun := CommandFailed ''Command failed: npm test''\<rparr>"

definition failingTestsEnv :: workflowEnv where
  "failingTestsEnv = calmEnv\<lparr>stageEnvs := (\<lambda>i. failingTestsStage)\<rparr>"

text \<open>The world in which every run of \<^verbatim>\<open>claude\<close> fails.\<close>

definition claudeDownEnv :: workflowEnv where
  "claudeDownEnv =
     calmEnv\<lparr>stageEnvs := (\<lambda>i. calmStage\<lparr>claudeRuns := (\<lambda>k. ClaudeFailed ''rate limit exceeded'')\<rparr>)\<rparr>"

text \<open>
  The world in which the git commands of createSnapshot cannot run, and the world in which
  they hang on every attempt.
\<close>

definition gitDownEnv :: workflowEnv where
  "gitDownEnv =
     calmEnv\<lparr>stageEnvs :=
       (\<lambda>i. calmStage\<lparr>snapshotRuns := (\<lambda>k. SnapshotRan 1700000000000 False False cleanRepo)\<rparr>)\<rparr>"

definition gitHangsEnv :: workflowEnv where
  "gitHangsEnv = calmEnv\<lparr>stageEnvs := (\<lambda>i. calmStage\<lparr>snapshotRuns := (\<lambda>k. SnapshotTimedOut)\<rparr>)\<rparr>"

text \<open>
  Feature branches: one on which every command succeeds, one whose tests fail, and one on
  which \<^verbatim>\<open>claude\<close> fails to implement the feature.
\<close>

definition calmBranch :: branchEnv where
  "calmBranch =
     \<lparr>createBranchRuns = (\<lambda>k. ClaudeOk ''switched'' [] [] 0 0 300),
      implementRuns = (\<lambda>k. ClaudeOk ''done'' [] [''src/feature.ts''] 25 0 2500),
      branchTestRun = Stdout ''{}'', branchTestElapsed = 40,
      branchMetricsAppend = (\<lambda>k. None)\<rparr>"

definition failingTestsBranch :: branchEnv where
  "failingTestsBranch = calmBranch\<lparr>branchTestRun := CommandFailed ''Command failed: npm test''\<rparr>"

definition claudeDownBranch :: branchEnv where
  "claudeDownBranch = calmBranch\<lparr>implementRuns := (\<lambda>k. ClaudeFailed ''rate limit exceeded'')\<rparr>"

definition threeFeatures :: "string list" where
  "threeFeatures = [''auth'', ''rate limit'', ''cache'']"

section \<open>Notions used by the properties\<close>

text \<open>Whether a run of \<^verbatim>\<open>claude\<close> resolved.\<close>

fun claudeOk :: "claudeRun \<Rightarrow> bool" where
  "claudeOk (ClaudeFailed _) = False"
| "claudeOk (ClaudeOk _ _ _ _ _ _) = True"

text \<open>
  A snapshot id is a valid reference in a repository when the repository has the commit
  that createSnapshot makes for it, the one with the message \<^verbatim>\<open>Snapshot: <id>\<close>.
\<close>

definition validRef :: "repo \<Rightarrow> string \<Rightarrow> bool" where
  "validRef g ref = (''Snapshot: '' @ ref \<in> set (map fst (commits g)))"

text \<open>The environment with the signals of stage \<open>i\<close> replaced.\<close>

definition withSignals :: "workflowEnv \<Rightarrow> nat \<Rightarrow> signal list \<Rightarrow> workflowEnv" where
  "withSignals env i sigs =
     env\<lparr>stageEnvs := (stageEnvs env)(i := (stageEnvs env i)\<lparr>signals := sigs\<rparr>)\<rparr>"


text \<open>The prompts of the executeClaudeCode calls of a run, in order.\<close>

fun executedPrompts :: "event list \<Rightarrow> string list" where
  "executedPrompts [] = []"
| "executedPrompts (ExecuteClaudeCode p # evs) = p # executedPrompts evs"
| "executedPrompts (_ # evs) = executedPrompts evs"


section \<open>Properties of the activities\<close>

lemma parseTestResults_unparsable:
  "parse out = None \<Longrightarrow> parseTestResults parse out = parseFallback"
  by (simp add: parseTestResults_def)

lemma runTests_success_iff:
  "success (runTests parse run elapsed) = (tr_failed (runTests parse run elapsed) = JNum 0)"
  by (cases run) (simp_all add: runTests_def Let_def)

lemma runTests_command_failed:
  "runTests parse (CommandFailed msg) elapsed =
     \<lparr>success = False, tr_totalTests = JNum 0, tr_passed = JNum 0,
      tr_failed = JNum 1, tr_duration = elapsed, tr_errors = [JStr msg]\<rparr>"
  by (simp add: runTests_def)

text \<open>
  Claim C10. runTests returns a result on every input (it is a total function here: both
  the rejected command and the parse error are caught), the success flag is true exactly
  when the failed count is the number 0, and a failed command gives success = false,
  failed = 1 and the message in errors (the three lemmas above). But a test command that
  exits normally and prints text that is not JSON is reported as a passing run: the
  fallback of parseTestResults has failed = 0, so success is true.
\<close>

theorem runTests_unparsable_output_passes:
  "runTests (\<lambda>s. if s = ''{}'' then Some (JObj []) else None) (Stdout ''not json'') 5 =
     \<lparr>success = True, tr_totalTests = JNum 0, tr_passed = JNum 0, tr_failed = JNum 0,
      tr_duration = 5, tr_errors = [JStr ''Failed to parse test results'']\<rparr>"
  by (simp add: runTests_def parseTestResults_def parseFallback_def)

section \<open>Properties of the activity proxy\<close>

lemma executeClaudeCode_isl: "isl (executeClaudeCode p run) = (\<not> claudeOk run)"
  by (cases run) (simp_all add: Let_def)

lemma executeClaudeCode_errorType:
  "executeClaudeCode p run = Inl err \<Longrightarrow> errorType err = ''Error''"
  by (cases run) (auto simp: Let_def)

lemma proxy_retry_unfold:
  "proxy retry f =
     (case f 1 of Inr v \<Rightarrow> (1, Inr v) | Inl e1 \<Rightarrow>
      (case f 2 of Inr v \<Rightarrow> (2, Inr v) | Inl e2 \<Rightarrow> (3, f 3)))"
  by (simp add: proxy_def retry_def numeral_3_eq_3 numeral_2_eq_2 split: sum.splits)

lemma proxy_retry_result:
  "snd (proxy retry f) = Inr v \<Longrightarrow> \<exists>k. f k = Inr v"
  by (auto simp: proxy_retry_unfold split: sum.splits)

text \<open>
  Claim C5, as the code has it. The number of attempts of executeClaudeCode under the
  retry policy of the source depends only on which runs succeed: the first attempt that
  succeeds ends the call, and three attempts are made otherwise, whatever the errors are.
  No kind of error stops the retries after one attempt.
\<close>

theorem attempts_ignore_error_kind:
  "fst (proxy retry (\<lambda>k. executeClaudeCode p (runs k))) =
     (if claudeOk (runs 1) then 1 else if claudeOk (runs 2) then 2 else 3)"
proof -
  have "isl (executeClaudeCode p (runs 1)) = (\<not> claudeOk (runs 1))"
       "isl (executeClaudeCode p (runs 2)) = (\<not> claudeOk (runs 2))"
    by (rule executeClaudeCode_isl)+
  then show ?thesis
    by (auto simp: proxy_retry_unfold split: sum.splits)
qed

text \<open>
  Claim C5, as stated, fails: a \<^verbatim>\<open>claude\<close> command that rejects its input as malformed on
  every run is attempted three times, not once.
\<close>

theorem malformed_input_three_attempts:
  "fst (proxy retry (\<lambda>k. executeClaudeCode ''p'' (ClaudeFailed ''malformed input''))) = 3
   \<and> fst (proxy retry (\<lambda>k. executeClaudeCode ''p'' (ClaudeFailed ''malformed input''))) \<noteq> 1"
  by (simp add: proxy_retry_unfold)


section \<open>One iteration of the stage loop, step by step\<close>





lemma handler_totals:
  "totalTokensUsed (handler sg s) = totalTokensUsed s"
  "totalCost (handler sg s) = totalCost s"
  "testsPassedCount (handler sg s) = testsPassedCount s"
  "snapshots (handler sg s) = snapshots s"
  "currentStage (handler sg s) = currentStage s"
  by (cases sg; simp)+

lemma deliver_totals:
  "totalTokensUsed (deliver sigs s) = totalTokensUsed s"
  "totalCost (deliver sigs s) = totalCost s"
  "testsPassedCount (deliver sigs s) = testsPassedCount s"
  "snapshots (deliver sigs s) = snapshots s"
  "currentStage (deliver sigs s) = currentStage s"
  unfolding deliver_def
  by (induction sigs arbitrary: s; simp add: handler_totals)+

lemma proxy_retry_cases:
  obtains (first) v where "f 1 = Inr v" and "snd (proxy retry f) = Inr v"
  | (second) v where "isl (f 1)" and "f 2 = Inr v" and "snd (proxy retry f) = Inr v"
  | (third) v where "isl (f 1)" and "isl (f 2)" and "f 3 = Inr v" and "snd (proxy retry f) = Inr v"
  | (failed) err where "isl (f 1)" and "isl (f 2)" and "f 3 = Inl err"
      and "snd (proxy retry f) = Inl err"
  by (cases "f 1"; cases "f 2"; cases "f 3") (auto simp: proxy_retry_unfold)

lemma createSnapshot_id:
  "fst (createSnapshot now addOk commitOk g) = ''snapshot-'' @ string_of_nat now"
  by (simp add: createSnapshot_def Let_def split: option.splits)

lemma snapshotAttempt_id:
  "snapshotAttempt run = Inr snapshot \<Longrightarrow>
   \<exists>now addOk commitOk g. run = SnapshotRan now addOk commitOk g
     \<and> snapshot = createSnapshot now addOk commitOk g"
  by (cases run) auto

lemma approved_handler: "approved (handler sg s) = Some (sg = Approve)"
  by (cases sg) simp_all

lemma deliver_snoc: "deliver (sigs @ [sg]) s = handler sg (deliver sigs s)"
  by (simp add: deliver_def)

lemma approved_deliver:
  "approved (deliver sigs s) = (if sigs = [] then approved s else Some (last sigs = Approve))"
proof (induction sigs rule: rev_induct)
  case Nil
  then show ?case by (simp add: deliver_def)
next
  case (snoc sg sigs)
  then show ?case by (simp add: deliver_snoc approved_handler)
qed

text \<open>What the first lines of an iteration leave behind, whether they succeed or not.\<close>

lemma beginStage_fields:
  "totalTokensUsed (fst (fst (beginStage e st r))) = totalTokensUsed (fst r)"
  "totalCost (fst (fst (beginStage e st r))) = totalCost (fst r)"
  "testsPassedCount (fst (fst (beginStage e st r))) = testsPassedCount (fst r)"
  "currentStage (fst (fst (beginStage e st r))) = name st"
  "approved (fst (fst (beginStage e st r))) =
     (if signals e = [] then approved (fst r) else Some (last (signals e) = Approve))"
  by (simp_all add: beginStage_def Let_def deliver_totals approved_deliver split: sum.splits)

lemma beginStage_events:
  "\<exists>evs. snd (fst (beginStage e st r)) =
      snd r @ EstimateCost (prompt st) (if criticalPath st then High else Medium) # evs
     \<and> (evs = [] \<or> evs = [CreateSnapshot])"
  by (simp add: beginStage_def Let_def split: sum.splits)


lemma beginStage_critical:
  assumes "criticalPath st" and "beginStage e st r = (r0, None)"
  shows "\<exists>k now addOk commitOk g.
           snapshotRuns e k = SnapshotRan now addOk commitOk g
           \<and> snapshots (fst r0) = snapshots (fst r) @ [fst (createSnapshot now addOk commitOk g)]
           \<and> snd r0 = snd r @ [EstimateCost (prompt st) High, CreateSnapshot]"
proof -
  let ?f = "\<lambda>k. snapshotAttempt (snapshotRuns e k)"
  from assms obtain snapshot where p: "snd (proxy retry ?f) = Inr snapshot"
    and s: "snapshots (fst r0) = snapshots (fst r) @ [fst snapshot]"
    and ev: "snd r0 = snd r @ [EstimateCost (prompt st) High, CreateSnapshot]"
    by (auto simp: beginStage_def Let_def deliver_totals split: sum.splits)
  from proxy_retry_result [OF p] obtain k where "?f k = Inr snapshot" ..
  from snapshotAttempt_id [OF this] s ev show ?thesis by blast
qed

lemma beginStage_not_critical:
  assumes "\<not> criticalPath st" and "beginStage e st r = (r0, None)"
  shows "r0 = (deliver (signals e) ((fst r)\<lparr>currentStage := name st\<rparr>),
               snd r @ [EstimateCost (prompt st) Medium])"
  using assms by (auto simp: beginStage_def Let_def split: sum.splits)

lemma beginStage_snapshots_grow:
  "\<exists>ids. snapshots (fst (fst (beginStage e st r))) = snapshots (fst r) @ ids"
  by (simp add: beginStage_def Let_def deliver_totals split: sum.splits)




lemma metricsStep_state: "fst (fst (metricsStep e st result r)) = fst r"
  by (simp add: metricsStep_def Let_def split: sum.splits)

lemma cooldownStep_state: "fst (cooldownStep r) = fst r"
  by (simp add: cooldownStep_def)

lemma executeStep_events:
  "snd (fst (executeStep e st r)) = snd r @ [ExecuteClaudeCode (prompt st)]"
  by (simp add: executeStep_def Let_def split: sum.splits)

lemma verifyStep_events: "\<exists>evs. snd (fst (verifyStep parse e st r)) = snd r @ evs"
  by (simp add: verifyStep_def Let_def)

lemma approvalStep_events: "\<exists>evs. snd (fst (approvalStep st r)) = snd r @ evs"
  by (simp add: approvalStep_def Let_def)

lemma metricsStep_events: "\<exists>evs. snd (fst (metricsStep e st result r)) = snd r @ evs"
  by (simp add: metricsStep_def Let_def split: sum.splits)

lemma cooldownStep_events: "\<exists>evs. snd (cooldownStep r) = snd r @ evs"
  by (simp add: cooldownStep_def)

lemma executeStep_snapshots: "snapshots (fst (fst (executeStep e st r))) = snapshots (fst r)"
  by (simp add: executeStep_def Let_def split: sum.splits)

lemma verifyStep_snapshots: "snapshots (fst (fst (verifyStep parse e st r))) = snapshots (fst r)"
  by (simp add: verifyStep_def Let_def)

lemma approvalStep_snapshots: "snapshots (fst (fst (approvalStep st r))) = snapshots (fst r)"
  by (simp add: approvalStep_def Let_def)

lemma executeStep_currentStage:
  "currentStage (fst (fst (executeStep e st r))) = currentStage (fst r)"
  by (simp add: executeStep_def Let_def split: sum.splits)


lemma executeStep_approved: "approved (fst (fst (executeStep e st r))) = approved (fst r)"
  by (simp add: executeStep_def Let_def split: sum.splits)

lemma verifyStep_approved: "approved (fst (fst (verifyStep parse e st r))) = approved (fst r)"
  by (simp add: verifyStep_def Let_def)

lemma verifyStep_usage:
  "totalTokensUsed (fst (fst (verifyStep parse e st r))) = totalTokensUsed (fst r)"
  "totalCost (fst (fst (verifyStep parse e st r))) = totalCost (fst r)"
  by (simp_all add: verifyStep_def Let_def)

lemma approvalStep_usage:
  "totalTokensUsed (fst (fst (approvalStep st r))) = totalTokensUsed (fst r)"
  "totalCost (fst (fst (approvalStep st r))) = totalCost (fst r)"
  by (simp_all add: approvalStep_def Let_def)

lemma executeStep_usage:
  "(case snd (executeStep e st r) of
      Inr result \<Rightarrow>
        totalTokensUsed (fst (fst (executeStep e st r))) = totalTokensUsed (fst r) + tokensUsed result
        \<and> totalCost (fst (fst (executeStep e st r))) = totalCost (fst r) + cost result
    | Inl err \<Rightarrow>
        totalTokensUsed (fst (fst (executeStep e st r))) = totalTokensUsed (fst r)
        \<and> totalCost (fst (fst (executeStep e st r))) = totalCost (fst r))"
  by (simp add: executeStep_def Let_def split: sum.splits)


text \<open>The ways an iteration can end.\<close>

lemma runStage_elim
  [case_names begin_fail exec_fail verify_fail approval_fail metrics_fail finished]:
  obtains
    r0 err where "beginStage e st r = (r0, Some err)"
      and "runStage parse e st r = (r0, Some err)"
  | r0 r1 err where "beginStage e st r = (r0, None)"
      and "executeStep e st r0 = (r1, Inl err)"
      and "runStage parse e st r = (r1, Some err)"
  | r0 r1 result r2 err where "beginStage e st r = (r0, None)"
      and "executeStep e st r0 = (r1, Inr result)"
      and "verifyStep parse e st r1 = (r2, Some err)"
      and "runStage parse e st r = (r2, Some err)"
  | r0 r1 result r2 r3 err where "beginStage e st r = (r0, None)"
      and "executeStep e st r0 = (r1, Inr result)"
      and "verifyStep parse e st r1 = (r2, None)"
      and "approvalStep st r2 = (r3, Some err)"
      and "runStage parse e st r = (r3, Some err)"
  | r0 r1 result r2 r3 r4 err where "beginStage e st r = (r0, None)"
      and "executeStep e st r0 = (r1, Inr result)"
      and "verifyStep parse e st r1 = (r2, None)"
      and "approvalStep st r2 = (r3, None)"
      and "metricsStep e st result r3 = (r4, Some err)"
      and "runStage parse e st r = (r4, Some err)"
  | r0 r1 result r2 r3 r4 where "beginStage e st r = (r0, None)"
      and "executeStep e st r0 = (r1, Inr result)"
      and "verifyStep parse e st r1 = (r2, None)"
      and "approvalStep st r2 = (r3, None)"
      and "metricsStep e st result r3 = (r4, None)"
      and "runStage parse e st r = (cooldownStep r4, None)"
proof -
  obtain r0 b where be: "beginStage e st r = (r0, b)" by (cases "beginStage e st r")
  show ?thesis
  proof (cases b)
    case (Some err)
    with be that(1) show ?thesis by (simp add: runStage_def)
  next
    case None0: None
    obtain r1 x where ex: "executeStep e st r0 = (r1, x)" by (cases "executeStep e st r0")
    show ?thesis
    proof (cases x)
      case (Inl err)
      with be None0 ex that(2) show ?thesis by (simp add: runStage_def)
    next
      case (Inr result)
      obtain r2 y where ve: "verifyStep parse e st r1 = (r2, y)"
        by (cases "verifyStep parse e st r1")
      show ?thesis
      proof (cases y)
        case (Some err)
        with be None0 ex Inr ve that(3) show ?thesis by (simp add: runStage_def)
      next
        case None
        obtain r3 z where ap: "approvalStep st r2 = (r3, z)" by (cases "approvalStep st r2")
        show ?thesis
        proof (cases z)
          case (Some err)
          with be None0 ex Inr ve None ap that(4) show ?thesis by (simp add: runStage_def)
        next
          case None2: None
          obtain r4 w where me: "metricsStep e st result r3 = (r4, w)"
            by (cases "metricsStep e st result r3")
          show ?thesis
          proof (cases w)
            case (Some err)
            with be None0 ex Inr ve None ap None2 me that(5) show ?thesis
              by (simp add: runStage_def)
          next
            case None3: None
            with be None0 ex Inr ve None ap None2 me that(6) show ?thesis
              by (simp add: runStage_def)
          qed
        qed
      qed
    qed
  qed
qed

section \<open>The usage totals never decrease\<close>



lemma stageLoop_append:
  "stageLoop parse envs i (pre @ post) r =
     (case stageLoop parse envs i pre r of
        (r1, Some err) \<Rightarrow> (r1, Some err)
      | (r1, None) \<Rightarrow> stageLoop parse envs (length pre + i) post r1)"
proof (induction pre arbitrary: i r)
  case Nil
  then show ?case by simp
next
  case (Cons st pre)
  obtain r1 x where rs: "runStage parse (envs i) st r = (r1, x)"
    by (cases "runStage parse (envs i) st r")
  show ?case
  proof (cases x)
    case None
    with rs Cons.IH [of "Suc i" r1] show ?thesis
      by (simp split: prod.splits option.splits)
  next
    case (Some err)
    with rs show ?thesis by simp
  qed
qed







section \<open>Snapshots\<close>

lemma createSnapshot_commits:
  "commits (snd (createSnapshot now addOk commitOk g)) =
     (if addOk \<and> commitOk
      then commits g @ [(''Snapshot: snapshot-'' @ string_of_nat now, workTree g)]
      else commits g)"
  by (simp add: createSnapshot_def gitAddAll_def gitCommit_def Let_def)

lemma createSnapshot_validRef:
  "validRef (snd (createSnapshot now addOk commitOk g)) (''snapshot-'' @ string_of_nat now) =
     (addOk \<and> commitOk \<or> validRef g (''snapshot-'' @ string_of_nat now))"
  by (auto simp: validRef_def createSnapshot_commits)

lemma createSnapshot_no_pending_changes:
  "workTree g = headTree g \<Longrightarrow>
   validRef (snd (createSnapshot now True True g)) (fst (createSnapshot now True True g))"
  using createSnapshot_validRef [of now True True g] by (simp add: createSnapshot_id)

lemma estimate_proxy_isl:
  "isl (snd (proxy retry (\<lambda>k. if completes k then Inr c else Inl TimeoutFailure))) \<longleftrightarrow>
     \<not> (completes 1 \<or> completes 2 \<or> completes 3)"
  by (cases "completes 1"; cases "completes 2"; cases "completes 3")
     (simp_all add: proxy_retry_unfold)

lemma snapshotAttempt_isl: "isl (snapshotAttempt run) \<longleftrightarrow> run = SnapshotTimedOut"
  by (cases run) simp_all

lemma snapshot_proxy_isl:
  "isl (snd (proxy retry (\<lambda>k. snapshotAttempt (runs k)))) \<longleftrightarrow>
     \<not> (runs 1 \<noteq> SnapshotTimedOut \<or> runs 2 \<noteq> SnapshotTimedOut \<or> runs 3 \<noteq> SnapshotTimedOut)"
  by (cases "runs 1"; cases "runs 2"; cases "runs 3") (simp_all add: proxy_retry_unfold)

lemma beginStage_None_iff:
  "snd (beginStage e st r) = None \<longleftrightarrow>
     \<not> isl (snd (proxy retry (\<lambda>k. if estimateCostCompletes e k
                 then Inr (estimateCost (prompt st) (if criticalPath st then High else Medium))
                 else Inl TimeoutFailure)))
     \<and> (\<not> criticalPath st
         \<or> \<not> isl (snd (proxy retry (\<lambda>k. snapshotAttempt (snapshotRuns e k)))))"
proof (cases "criticalPath st")
  case True
  then show ?thesis
    by (cases "snd (proxy retry (\<lambda>k. if estimateCostCompletes e k
                 then Inr (estimateCost (prompt st) High) else Inl TimeoutFailure))";
        cases "snd (proxy retry (\<lambda>k. snapshotAttempt (snapshotRuns e k)))")
       (simp_all add: beginStage_def Let_def)
next
  case False
  then show ?thesis
    by (cases "snd (proxy retry (\<lambda>k. if estimateCostCompletes e k
                 then Inr (estimateCost (prompt st) Medium) else Inl TimeoutFailure))")
       (simp_all add: beginStage_def Let_def)
qed

lemma beginStage_completes_iff:
  "snd (beginStage e st r) = None \<longleftrightarrow>
     (estimateCostCompletes e 1 \<or> estimateCostCompletes e 2 \<or> estimateCostCompletes e 3)
     \<and> (\<not> criticalPath st \<or> snapshotRuns e 1 \<noteq> SnapshotTimedOut
         \<or> snapshotRuns e 2 \<noteq> SnapshotTimedOut \<or> snapshotRuns e 3 \<noteq> SnapshotTimedOut)"
  unfolding beginStage_None_iff estimate_proxy_isl snapshot_proxy_isl by blast

lemma runStage_events_after_begin:
  assumes "beginStage e st r = (r0, None)"
  shows "\<exists>evs. snd (fst (runStage parse e st r)) = snd r0 @ ExecuteClaudeCode (prompt st) # evs"
proof (cases rule: runStage_elim [of e st r parse])
  case (begin_fail r0' err)
  with assms show ?thesis by simp
next
  case (exec_fail r0' r1 err)
  with assms executeStep_events [of e st r0] show ?thesis by simp
next
  case (verify_fail r0' r1 result r2 err)
  with assms executeStep_events [of e st r0] verifyStep_events [of parse e st r1]
  show ?thesis by auto
next
  case (approval_fail r0' r1 result r2 r3 err)
  with assms executeStep_events [of e st r0] verifyStep_events [of parse e st r1]
    approvalStep_events [of st r2]
  show ?thesis by auto
next
  case (metrics_fail r0' r1 result r2 r3 r4 err)
  with assms executeStep_events [of e st r0] verifyStep_events [of parse e st r1]
    approvalStep_events [of st r2] metricsStep_events [of e st result r3]
  show ?thesis by auto
next
  case (finished r0' r1 result r2 r3 r4)
  with assms executeStep_events [of e st r0] verifyStep_events [of parse e st r1]
    approvalStep_events [of st r2] metricsStep_events [of e st result r3]
    cooldownStep_events [of r4]
  show ?thesis by auto
qed

lemma runStage_snapshots:
  "snapshots (fst (fst (runStage parse e st r))) = snapshots (fst (fst (beginStage e st r)))"
proof (cases rule: runStage_elim [of e st r parse])
  case (begin_fail r0 err)
  then show ?thesis by simp
next
  case (exec_fail r0 r1 err)
  with executeStep_snapshots [of e st r0] show ?thesis by simp
next
  case (verify_fail r0 r1 result r2 err)
  with executeStep_snapshots [of e st r0] verifyStep_snapshots [of parse e st r1]
  show ?thesis by simp
next
  case (approval_fail r0 r1 result r2 r3 err)
  with executeStep_snapshots [of e st r0] verifyStep_snapshots [of parse e st r1]
    approvalStep_snapshots [of st r2]
  show ?thesis by simp
next
  case (metrics_fail r0 r1 result r2 r3 r4 err)
  with executeStep_snapshots [of e st r0] verifyStep_snapshots [of parse e st r1]
    approvalStep_snapshots [of st r2] metricsStep_state [of e st result r3]
  show ?thesis by simp
next
  case (finished r0 r1 result r2 r3 r4)
  with executeStep_snapshots [of e st r0] verifyStep_snapshots [of parse e st r1]
    approvalStep_snapshots [of st r2] metricsStep_state [of e st result r3]
  show ?thesis by (simp add: cooldownStep_state)
qed

text \<open>
  Claim C9, as the code has it. createSnapshot returns the id \<^verbatim>\<open>snapshot-<time>\<close> in
  every case. When both git commands can run, the repository gains the commit
  \<^verbatim>\<open>Snapshot: snapshot-<time>\<close> holding the working directory, also when there are no
  pending changes (the commit is made with \<^verbatim>\<open>--allow-empty\<close>), and the id is a valid
  reference. When a git command fails, no commit is made and the id is valid only if it
  was before. For a critical stage whose cost estimate and snapshot activities complete
  (some attempt of each within its timeout), the id that createSnapshot returned is
  recorded on the state, whatever the git commands did, and the next call is the stage's
  executeClaudeCode.
\<close>

theorem snapshot_is_committed_when_git_can_run:
  assumes "criticalPath st"
    and "estimateCostCompletes e 1 \<or> estimateCostCompletes e 2 \<or> estimateCostCompletes e 3"
    and "snapshotRuns e 1 \<noteq> SnapshotTimedOut \<or> snapshotRuns e 2 \<noteq> SnapshotTimedOut
         \<or> snapshotRuns e 3 \<noteq> SnapshotTimedOut"
  shows "fst (createSnapshot now addOk commitOk g) = ''snapshot-'' @ string_of_nat now
    \<and> commits (snd (createSnapshot now addOk commitOk g)) =
        (if addOk \<and> commitOk
         then commits g @ [(''Snapshot: snapshot-'' @ string_of_nat now, workTree g)]
         else commits g)
    \<and> validRef (snd (createSnapshot now addOk commitOk g)) (''snapshot-'' @ string_of_nat now) =
        (addOk \<and> commitOk \<or> validRef g (''snapshot-'' @ string_of_nat now))
    \<and> (\<exists>k t a c h evs.
          snapshotRuns e k = SnapshotRan t a c h
          \<and> snapshots (fst (fst (runStage parse e st r))) =
              snapshots (fst r) @ [fst (createSnapshot t a c h)]
          \<and> snd (fst (runStage parse e st r)) =
              snd r @ [EstimateCost (prompt st) High, CreateSnapshot,
                       ExecuteClaudeCode (prompt st)] @ evs)"
proof -
  obtain r0 where b: "beginStage e st r = (r0, None)"
    using assms beginStage_completes_iff [of e st r] by (cases "beginStage e st r") auto
  from beginStage_critical [OF assms(1) b]
  obtain k t a c h where k: "snapshotRuns e k = SnapshotRan t a c h"
    and s: "snapshots (fst r0) = snapshots (fst r) @ [fst (createSnapshot t a c h)]"
    and ev: "snd r0 = snd r @ [EstimateCost (prompt st) High, CreateSnapshot]"
    by blast
  from runStage_events_after_begin [OF b, of parse]
  obtain evs where "snd (fst (runStage parse e st r)) = snd r0 @ ExecuteClaudeCode (prompt st) # evs"
    ..
  with ev have e2: "snd (fst (runStage parse e st r)) =
      snd r @ [EstimateCost (prompt st) High, CreateSnapshot, ExecuteClaudeCode (prompt st)] @ evs"
    by simp
  have s2: "snapshots (fst (fst (runStage parse e st r))) =
      snapshots (fst r) @ [fst (createSnapshot t a c h)]"
    using runStage_snapshots [of parse e st r] b s by simp
  from k s2 e2 have w: "\<exists>k t a c h evs.
          snapshotRuns e k = SnapshotRan t a c h
          \<and> snapshots (fst (fst (runStage parse e st r))) =
              snapshots (fst r) @ [fst (createSnapshot t a c h)]
          \<and> snd (fst (runStage parse e st r)) =
              snd r @ [EstimateCost (prompt st) High, CreateSnapshot,
                       ExecuteClaudeCode (prompt st)] @ evs"
    by (intro exI conjI)
  show ?thesis
    using w createSnapshot_id [of now addOk commitOk g]
      createSnapshot_commits [of now addOk commitOk g]
      createSnapshot_validRef [of now addOk commitOk g]
    by (intro conjI)
qed

section \<open>Evaluating the first stage of the shipped list\<close>

lemmas run_eval =
  runWorkflow_def tryBlock_def catchBlock_def runStage_def beginStage_def executeStep_def
  verifyStep_def approvalStep_def metricsStep_def cooldownStep_def testsPass_def
  proxy_retry_unfold createSnapshot_def gitAddAll_def gitCommit_def deliver_def runTests_def
  parseTestResults_def parseFields_def parseEmptyObject_def js_or_def initialState_def Let_def
  approvalTimeout_def

lemma scaffold_tokens:
  "estimateTokens (prompt (hd (stages ''/tmp/project'')) @ ''done'') = 69"
  by code_simp

lemma scaffold_cost:
  "calculateCost 69 ''claude-sonnet-4-5'' = 621 / 1000000"
  by (simp add: calculateCost_def pricing_def)

lemma stages_split: "stages p = hd (stages p) # tl (stages p)"
  by (simp add: stages_def)

lemma stages_first:
  "name (hd (stages p)) = ''scaffold''"
  "criticalPath (hd (stages p))"
  "\<not> requiresApproval (hd (stages p))"
  by (simp_all add: stages_def)

lemma gitDown_stage:
  assumes "name st = ''scaffold''" and "criticalPath st" and "\<not> requiresApproval st"
  shows "runStage parseEmptyObject (stageEnvs gitDownEnv 0) st (initialState, []) =
     ((\<lparr>currentStage = ''scaffold'', totalTokensUsed = estimateTokens (prompt st @ ''done''),
        totalCost = calculateCost (estimateTokens (prompt st @ ''done'')) ''claude-sonnet-4-5'',
        testsPassedCount = 1,
        snapshots = [''snapshot-'' @ string_of_nat 1700000000000], approved = None\<rparr>,
       [EstimateCost (prompt st) High, CreateSnapshot, ExecuteClaudeCode (prompt st), RunTests]),
      Some (ReferenceError ''testResult''))"
  using assms by (simp add: run_eval gitDownEnv_def calmEnv_def calmStage_def)

lemma gitDown_first_stage:
  "runStage parseEmptyObject (stageEnvs gitDownEnv 0) (hd (stages ''/tmp/project''))
     (initialState, []) =
     ((\<lparr>currentStage = ''scaffold'', totalTokensUsed = 69, totalCost = 621 / 1000000,
        testsPassedCount = 1,
        snapshots = [''snapshot-'' @ string_of_nat 1700000000000], approved = None\<rparr>,
       [EstimateCost (prompt (hd (stages ''/tmp/project''))) High, CreateSnapshot,
        ExecuteClaudeCode (prompt (hd (stages ''/tmp/project''))), RunTests]),
      Some (ReferenceError ''testResult''))"
  unfolding gitDown_stage [OF stages_first(1) stages_first(2) stages_first(3)]
    scaffold_tokens scaffold_cost ..

section \<open>A failing stage ends the workflow\<close>

lemma catchBlock_events:
  "snd (fst (catchBlock env r err)) =
     snd r @ [CaptureMetrics (FailureMetrics (currentStage (fst r)) (message err)
                (totalTokensUsed (fst r)) (totalCost (fst r)))]"
  by (simp add: catchBlock_def Let_def split: sum.splits)

lemma runWorkflow_failed:
  "tryBlock env sts (initialState, []) = (r, Some err) \<Longrightarrow>
   runWorkflow env sts = (fst (catchBlock env r err), Some (snd (catchBlock env r err)))"
  by (simp add: runWorkflow_def split: prod.splits)

lemma tryBlock_stage_throws:
  assumes "stageLoop (parseJSON env) (stageEnvs env) 0 pre r0 = (r, None)"
    and "runStage (parseJSON env) (stageEnvs env (length pre)) st r = (r', Some err)"
  shows "tryBlock env (pre @ st # post) r0 = (r', Some err)"
  using assms by (simp add: tryBlock_def stageLoop_append)

lemma runWorkflow_stage_throws:
  assumes "stageLoop (parseJSON env) (stageEnvs env) 0 pre (initialState, []) = (r, None)"
    and "runStage (parseJSON env) (stageEnvs env (length pre)) st r = (r', Some err)"
  shows "runWorkflow env (pre @ st # post) =
           (fst (catchBlock env r' err), Some (snd (catchBlock env r' err)))"
  by (rule runWorkflow_failed [OF tryBlock_stage_throws [OF assms]])

lemma verifyStep_critical_fails:
  assumes "criticalPath st" and "name st \<noteq> ''documentation''"
    and "snapshots (fst r) \<noteq> []"
    and "\<not> success (runTests parse (testRun e) (testElapsed e))"
  shows "verifyStep parse e st r =
           ((fst r, snd r @ [RunTests]),
            Some (Error (''Critical stage '' @ name st @ '' failed tests'')))"
  using assms by (simp add: verifyStep_def Let_def)


lemma runStage_critical_tests_fail:
  assumes c: "criticalPath st" and n: "name st \<noteq> ''documentation''"
    and be: "beginStage e st r = (r0, None)"
    and ex: "executeStep e st r0 = (r1, Inr result)"
    and f: "\<not> success (runTests parse (testRun e) (testElapsed e))"
  shows "runStage parse e st r =
           ((fst r1, snd r @ [EstimateCost (prompt st) High, CreateSnapshot,
                              ExecuteClaudeCode (prompt st), RunTests]),
            Some (Error (''Critical stage '' @ name st @ '' failed tests'')))"
proof -
  from beginStage_critical [OF c be]
  have s0: "snapshots (fst r0) \<noteq> []"
    and ev0: "snd r0 = snd r @ [EstimateCost (prompt st) High, CreateSnapshot]"
    by auto
  have s: "snapshots (fst r1) \<noteq> []"
    using executeStep_snapshots [of e st r0] ex s0 by simp
  have ev: "snd r1 = snd r @ [EstimateCost (prompt st) High, CreateSnapshot,
                              ExecuteClaudeCode (prompt st)]"
    using executeStep_events [of e st r0] ex ev0 by simp
  show ?thesis
    using be ex verifyStep_critical_fails [OF c n s f] ev
    by (simp add: runStage_def)
qed

text \<open>
  Claim C1, as the code has it. When a critical stage (not named \<^verbatim>\<open>documentation\<close>, so
  that its tests run) fails its tests after a snapshot was created, the calls the run
  makes from the start of that stage to its end are: the cost estimate, the snapshot, the
  execution, the tests and the failure record of the \<^verbatim>\<open>catch\<close>; then the workflow throws.
  Between the failed tests and the failure there is no call that restores a snapshot:
  the workflow has no such activity, and lines 586-590 only log the snapshot id.
\<close>

theorem critical_failure_makes_no_restore_call:
  assumes "stageLoop (parseJSON env) (stageEnvs env) 0 pre (initialState, []) = (r, None)"
    and "criticalPath st" and "name st \<noteq> ''documentation''"
    and "beginStage (stageEnvs env (length pre)) st r = (r0, None)"
    and "executeStep (stageEnvs env (length pre)) st r0 = (r1, Inr result)"
    and "\<not> success (runTests (parseJSON env) (testRun (stageEnvs env (length pre)))
                      (testElapsed (stageEnvs env (length pre))))"
  shows "snd (fst (runWorkflow env (pre @ st # post))) =
           snd r @ [EstimateCost (prompt st) High, CreateSnapshot,
                    ExecuteClaudeCode (prompt st), RunTests,
                    CaptureMetrics (FailureMetrics (name st)
                      (''Critical stage '' @ name st @ '' failed tests'')
                      (totalTokensUsed (fst r1)) (totalCost (fst r1)))]
         \<and> snd (runWorkflow env (pre @ st # post)) \<noteq> None"
proof -
  let ?e = "stageEnvs env (length pre)"
  have "currentStage (fst r0) = name st"
    using beginStage_fields(4) [of ?e st r] assms(4) by simp
  then have cs: "currentStage (fst r1) = name st"
    using executeStep_currentStage [of ?e st r0] assms(5) by simp
  show ?thesis
    using runWorkflow_stage_throws [OF assms(1)
            runStage_critical_tests_fail [OF assms(2) assms(3) assms(4) assms(5) assms(6)],
            of post] cs
    by (simp add: catchBlock_events)
qed

lemma failingTests_begin:
  assumes "name st = ''scaffold''" and "criticalPath st"
  shows "beginStage (stageEnvs failingTestsEnv 0) st (initialState, []) =
     ((\<lparr>currentStage = ''scaffold'', totalTokensUsed = 0, totalCost = 0, testsPassedCount = 0,
        snapshots = [''snapshot-'' @ string_of_nat 1700000000000], approved = None\<rparr>,
       [EstimateCost (prompt st) High, CreateSnapshot]), None)"
  using assms
  by (simp add: run_eval failingTestsEnv_def failingTestsStage_def calmEnv_def calmStage_def)

lemma failingTests_execute:
  "executeStep (stageEnvs failingTestsEnv 0) st (s, evs) =
     ((s\<lparr>totalTokensUsed := totalTokensUsed s + estimateTokens (prompt st @ ''done''),
         totalCost := totalCost s
           + calculateCost (estimateTokens (prompt st @ ''done'')) ''claude-sonnet-4-5''\<rparr>,
       evs @ [ExecuteClaudeCode (prompt st)]),
      Inr \<lparr>outputText = ''done'', tokensUsed = estimateTokens (prompt st @ ''done''),
           cost = calculateCost (estimateTokens (prompt st @ ''done'')) ''claude-sonnet-4-5'',
           duration = 1500, filesModified = [''src/index.ts''], linesAdded = 10,
           linesRemoved = 2\<rparr>)"
  by (simp add: run_eval failingTestsEnv_def failingTestsStage_def calmEnv_def calmStage_def)

theorem critical_failure_makes_no_restore_call_witness:
  "stageLoop (parseJSON failingTestsEnv) (stageEnvs failingTestsEnv) 0 [] (initialState, []) =
     ((initialState, []), None)
   \<and> criticalPath (hd (stages ''/tmp/project''))
   \<and> name (hd (stages ''/tmp/project'')) \<noteq> ''documentation''
   \<and> \<not> success (runTests (parseJSON failingTestsEnv) (testRun (stageEnvs failingTestsEnv 0))
                    (testElapsed (stageEnvs failingTestsEnv 0)))
   \<and> snd (fst (developLLMWrapperWorkflow failingTestsEnv ''/tmp/project'')) =
        [EstimateCost (prompt (hd (stages ''/tmp/project''))) High, CreateSnapshot,
         ExecuteClaudeCode (prompt (hd (stages ''/tmp/project''))), RunTests,
         CaptureMetrics (FailureMetrics ''scaffold'' ''Critical stage scaffold failed tests''
           69 (621 / 1000000))]
   \<and> snd (developLLMWrapperWorkflow failingTestsEnv ''/tmp/project'') \<noteq> None"
proof -
  let ?p = "''/tmp/project''"
  let ?st = "hd (stages ?p)"
  let ?e = "stageEnvs failingTestsEnv (length ([] :: DevelopmentStage list))"
  have l: "stageLoop (parseJSON failingTestsEnv) (stageEnvs failingTestsEnv) 0 []
             (initialState, []) = ((initialState, []), None)" by simp
  have c: "criticalPath ?st" by (rule stages_first(2))
  have n: "name ?st \<noteq> ''documentation''" by (simp add: stages_first)
  have be: "beginStage ?e ?st (initialState, []) =
     ((\<lparr>currentStage = ''scaffold'', totalTokensUsed = 0, totalCost = 0, testsPassedCount = 0,
        snapshots = [''snapshot-'' @ string_of_nat 1700000000000], approved = None\<rparr>,
       [EstimateCost (prompt ?st) High, CreateSnapshot]), None)"
    using failingTests_begin [OF stages_first(1) stages_first(2), of ?p] by simp
  have ex: "executeStep ?e ?st
      (\<lparr>currentStage = ''scaffold'', totalTokensUsed = 0, totalCost = 0, testsPassedCount = 0,
        snapshots = [''snapshot-'' @ string_of_nat 1700000000000], approved = None\<rparr>,
       [EstimateCost (prompt ?st) High, CreateSnapshot]) =
     ((\<lparr>currentStage = ''scaffold'', totalTokensUsed = 69, totalCost = 621 / 1000000,
        testsPassedCount = 0,
        snapshots = [''snapshot-'' @ string_of_nat 1700000000000], approved = None\<rparr>,
       [EstimateCost (prompt ?st) High, CreateSnapshot, ExecuteClaudeCode (prompt ?st)]),
      Inr \<lparr>outputText = ''done'', tokensUsed = 69, cost = 621 / 1000000,
           duration = 1500, filesModified = [''src/index.ts''], linesAdded = 10,
           linesRemoved = 2\<rparr>)"
    using failingTests_execute [of ?st] scaffold_tokens scaffold_cost by simp
  have f: "\<not> success (runTests (parseJSON failingTestsEnv) (testRun ?e) (testElapsed ?e))"
    by (simp add: runTests_def failingTestsEnv_def failingTestsStage_def calmStage_def)
  have w: "runWorkflow failingTestsEnv ([] @ ?st # tl (stages ?p)) =
      developLLMWrapperWorkflow failingTestsEnv ?p"
    using stages_split [of ?p] by (simp add: developLLMWrapperWorkflow_def)
  show ?thesis
    using critical_failure_makes_no_restore_call [OF l c n be ex f, of "tl (stages ?p)"]
      c n f
    unfolding w by (simp add: stages_first)
qed

section \<open>Which runs complete\<close>

lemma metricsStep_ReferenceError:
  "name st \<noteq> ''documentation'' \<Longrightarrow>
   metricsStep e st result r = (r, Some (ReferenceError ''testResult''))"
  by (simp add: metricsStep_def testsPass_def)

lemma runStage_throws_unless_documentation:
  assumes "name st \<noteq> ''documentation''"
  shows "snd (runStage parse e st r) \<noteq> None"
proof (cases rule: runStage_elim [of e st r parse])
  case (finished r0 r1 result r2 r3 r4)
  with metricsStep_ReferenceError [OF assms, of e result r3] show ?thesis by simp
qed simp_all

lemma stageLoop_throws_unless_documentation:
  "st \<in> set sts \<Longrightarrow> name st \<noteq> ''documentation'' \<Longrightarrow>
   snd (stageLoop parse envs i sts r) \<noteq> None"
proof (induction sts arbitrary: i r)
  case Nil
  then show ?case by simp
next
  case (Cons a sts)
  obtain r1 x where rs: "runStage parse (envs i) a r = (r1, x)"
    by (cases "runStage parse (envs i) a r")
  show ?case
  proof (cases x)
    case (Some err)
    with rs show ?thesis by simp
  next
    case None
    with rs runStage_throws_unless_documentation [of a parse "envs i" r]
    have "name a = ''documentation''" by auto
    with Cons.prems have "st \<in> set sts" by auto
    from Cons.IH [OF this Cons.prems(2), of "Suc i" r1] rs None show ?thesis by simp
  qed
qed

lemma runWorkflow_None_iff:
  "snd (runWorkflow env sts) = None \<longleftrightarrow> snd (tryBlock env sts (initialState, [])) = None"
  by (cases "tryBlock env sts (initialState, [])")
     (auto simp: runWorkflow_def split: option.splits prod.splits)

lemma tryBlock_None_stageLoop:
  "snd (tryBlock env sts r) = None \<Longrightarrow>
   snd (stageLoop (parseJSON env) (stageEnvs env) 0 sts r) = None"
  by (cases "stageLoop (parseJSON env) (stageEnvs env) 0 sts r")
     (auto simp: tryBlock_def Let_def split: option.splits if_splits)

text \<open>
  Claim C2, as the code has it. A run whose stage list has a stage not named
  \<^verbatim>\<open>documentation\<close> never returns: when such a stage has executed, passed its tests and
  passed its approval gate, building the argument of captureMetrics reads \<^verbatim>\<open>testResult\<close>
  out of its scope (line 631) and the ReferenceError ends the run in the \<^verbatim>\<open>catch\<close>. This
  holds for every behaviour of the activities, so also when all of them succeed. In the
  run of the shipped stage list in which every command succeeds, only the first of the six
  stages executes.
\<close>

theorem run_with_a_tested_stage_never_completes:
  assumes "st \<in> set sts" and "name st \<noteq> ''documentation''"
  shows "snd (runWorkflow env sts) \<noteq> None"
proof
  assume "snd (runWorkflow env sts) = None"
  then have "snd (stageLoop (parseJSON env) (stageEnvs env) 0 sts (initialState, [])) = None"
    by (simp add: runWorkflow_None_iff tryBlock_None_stageLoop)
  with stageLoop_throws_unless_documentation [OF assms] show False by blast
qed


lemma calm_stage:
  assumes "name st = ''scaffold''" and "criticalPath st" and "\<not> requiresApproval st"
  shows "runStage parseEmptyObject calmStage st (initialState, []) =
     ((initialState\<lparr>currentStage := ''scaffold'',
         totalTokensUsed := estimateTokens (prompt st @ ''done''),
         totalCost := calculateCost (estimateTokens (prompt st @ ''done'')) ''claude-sonnet-4-5'',
         testsPassedCount := 1,
         snapshots := [''snapshot-'' @ string_of_nat 1700000000000]\<rparr>,
       [EstimateCost (prompt st) High, CreateSnapshot, ExecuteClaudeCode (prompt st), RunTests]),
      Some (ReferenceError ''testResult''))"
  using assms by (simp add: run_eval calmStage_def)

lemma calm_first_stage:
  "runStage parseEmptyObject calmStage (hd (stages p)) (initialState, []) =
     ((initialState\<lparr>currentStage := ''scaffold'',
         totalTokensUsed := estimateTokens (prompt (hd (stages p)) @ ''done''),
         totalCost := calculateCost (estimateTokens (prompt (hd (stages p)) @ ''done''))
                        ''claude-sonnet-4-5'',
         testsPassedCount := 1,
         snapshots := [''snapshot-'' @ string_of_nat 1700000000000]\<rparr>,
       [EstimateCost (prompt (hd (stages p))) High, CreateSnapshot,
        ExecuteClaudeCode (prompt (hd (stages p))), RunTests]),
      Some (ReferenceError ''testResult''))"
  by (rule calm_stage [OF stages_first(1) stages_first(2) stages_first(3)])

theorem run_with_a_tested_stage_never_completes_witness:
  "hd (stages ''/tmp/project'') \<in> set (stages ''/tmp/project'')
   \<and> name (hd (stages ''/tmp/project'')) \<noteq> ''documentation''
   \<and> snd (developLLMWrapperWorkflow calmEnv ''/tmp/project'') \<noteq> None
   \<and> snd (developLLMWrapperWorkflow calmEnv ''/tmp/project'') = Some (ReferenceError ''testResult'')
   \<and> executedPrompts (snd (fst (developLLMWrapperWorkflow calmEnv ''/tmp/project''))) =
       [prompt (hd (stages ''/tmp/project''))]"
proof -
  let ?p = "''/tmp/project''"
  have m: "hd (stages ?p) \<in> set (stages ?p)" and n: "name (hd (stages ?p)) \<noteq> ''documentation''"
    by (simp_all add: stages_def)
  have st: "stages ?p = hd (stages ?p) # tl (stages ?p)"
    by (simp add: stages_def)
  obtain r' where rs: "runStage parseEmptyObject calmStage (hd (stages ?p)) (initialState, []) =
      (r', Some (ReferenceError ''testResult''))"
    and ev: "snd r' = [EstimateCost (prompt (hd (stages ?p))) High, CreateSnapshot,
        ExecuteClaudeCode (prompt (hd (stages ?p))), RunTests]"
    using calm_first_stage [of ?p] by simp
  have "stageLoop parseEmptyObject (\<lambda>i. calmStage) 0 (hd (stages ?p) # tl (stages ?p))
          (initialState, []) = (r', Some (ReferenceError ''testResult''))"
    using rs by simp
  with st have "tryBlock calmEnv (stages ?p) (initialState, []) =
      (r', Some (ReferenceError ''testResult''))"
    by (simp add: tryBlock_def calmEnv_def)
  from runWorkflow_failed [OF this]
  have w: "developLLMWrapperWorkflow calmEnv ?p =
      (fst (catchBlock calmEnv r' (ReferenceError ''testResult'')),
       Some (snd (catchBlock calmEnv r' (ReferenceError ''testResult''))))"
    by (simp add: developLLMWrapperWorkflow_def)
  have c: "snd (catchBlock calmEnv r' (ReferenceError ''testResult'')) = ReferenceError ''testResult''"
    by (simp add: catchBlock_def Let_def proxy_retry_unfold calmEnv_def)
  have e: "executedPrompts (snd (fst (developLLMWrapperWorkflow calmEnv ?p))) =
       [prompt (hd (stages ?p))]"
    using w ev by (simp add: catchBlock_events)
  show ?thesis
    using run_with_a_tested_stage_never_completes [OF m n, of calmEnv] m n w c e
    by (simp add: developLLMWrapperWorkflow_def)
qed

lemma executedPrompts_append:
  "executedPrompts (xs @ ys) = executedPrompts xs @ executedPrompts ys"
  by (induction xs rule: executedPrompts.induct) simp_all

lemma verifyStep_prompts:
  "executedPrompts (snd (fst (verifyStep parse e st r))) = executedPrompts (snd r)"
  by (simp add: verifyStep_def Let_def executedPrompts_append)

lemma approvalStep_prompts:
  "executedPrompts (snd (fst (approvalStep st r))) = executedPrompts (snd r)"
  by (simp add: approvalStep_def Let_def executedPrompts_append)

lemma metricsStep_prompts:
  "executedPrompts (snd (fst (metricsStep e st result r))) = executedPrompts (snd r)"
  by (simp add: metricsStep_def Let_def executedPrompts_append split: sum.splits)

lemma cooldownStep_prompts:
  "executedPrompts (snd (cooldownStep r)) = executedPrompts (snd r)"
  by (simp add: cooldownStep_def executedPrompts_append)


lemma beginStage_prompts:
  "executedPrompts (snd (fst (beginStage e st r))) = executedPrompts (snd r)"
  using beginStage_events [of e st r] by (auto simp: executedPrompts_append)

lemma runStage_prompts:
  assumes "runStage parse e st r = (r', None)"
  shows "executedPrompts (snd r') = executedPrompts (snd r) @ [prompt st]"
proof (cases rule: runStage_elim [of e st r parse])
  case (finished r0 r1 result r2 r3 r4)
  have "executedPrompts (snd r1) = executedPrompts (snd r) @ [prompt st]"
    using executeStep_events [of e st r0] beginStage_prompts [of e st r] finished(1,2)
    by (simp add: executedPrompts_append)
  with finished assms verifyStep_prompts [of parse e st r1] approvalStep_prompts [of st r2]
    metricsStep_prompts [of e st result r3]
  show ?thesis by (simp add: cooldownStep_prompts)
qed (use assms in simp_all)

lemma stageLoop_completed_prompts:
  "stageLoop parse envs i sts r = (r', None) \<Longrightarrow>
   executedPrompts (snd r') = executedPrompts (snd r) @ map prompt sts"
proof (induction sts arbitrary: i r)
  case Nil
  then show ?case by simp
next
  case (Cons st sts)
  obtain r1 x where rs: "runStage parse (envs i) st r = (r1, x)"
    by (cases "runStage parse (envs i) st r")
  with Cons.prems have x: "x = None" by (cases x) simp_all
  with rs Cons.prems have "stageLoop parse envs (Suc i) sts r1 = (r', None)" by simp
  from Cons.IH [OF this] runStage_prompts [of parse "envs i" st r r1] rs x
  show ?case by simp
qed

text \<open>
  What holds of the runs that do return: each stage was executed once, in the order of the
  list, and the last call is the final test run, which succeeded.
\<close>

lemma completed_run_is_in_order_and_verified:
  assumes "snd (runWorkflow env sts) = None"
  shows "executedPrompts (snd (fst (runWorkflow env sts))) = map prompt sts
         \<and> success (runTests (parseJSON env) (finalTestRun env) (finalTestElapsed env))
         \<and> last (snd (fst (runWorkflow env sts))) = RunTests"
proof -
  obtain r1 x where sl: "stageLoop (parseJSON env) (stageEnvs env) 0 sts (initialState, []) = (r1, x)"
    by (cases "stageLoop (parseJSON env) (stageEnvs env) 0 sts (initialState, [])")
  from assms have t: "snd (tryBlock env sts (initialState, [])) = None"
    by (simp add: runWorkflow_None_iff)
  with sl have x: "x = None" by (cases x) (simp_all add: tryBlock_def)
  from t sl x have s: "success (runTests (parseJSON env) (finalTestRun env) (finalTestElapsed env))"
    by (simp add: tryBlock_def Let_def split: if_splits)
  from sl x s have tb: "tryBlock env sts (initialState, []) =
      ((deliver (finalSignals env) (fst r1), snd r1 @ [RunTests]), None)"
    by (simp add: tryBlock_def Let_def)
  then have rw: "runWorkflow env sts = ((deliver (finalSignals env) (fst r1), snd r1 @ [RunTests]), None)"
    by (simp add: runWorkflow_def)
  from stageLoop_completed_prompts [of "parseJSON env" "stageEnvs env" 0 sts "(initialState, [])" r1]
    sl x
  have "executedPrompts (snd r1) = map prompt sts" by simp
  with rw s show ?thesis by (simp add: executedPrompts_append)
qed

section \<open>The approval gate\<close>

lemma approvalStep_undecided_or_rejected:
  assumes "requiresApproval st" and "approved (fst r) = None \<or> approved (fst r) = Some False"
  shows "approvalStep st r =
           ((fst r, snd r @ [NotifyDeveloper (name st), AwaitCondition approvalTimeout]),
            Some (Error (''Stage '' @ name st @ '' rejected by developer'')))"
  using assms by (auto simp: approvalStep_def Let_def)


lemma approvalStep_approved:
  assumes "requiresApproval st" and "approved (fst r) = Some True"
  shows "approvalStep st r =
           (((fst r)\<lparr>approved := None\<rparr>,
             snd r @ [NotifyDeveloper (name st), AwaitCondition approvalTimeout]), None)"
  using assms by (simp add: approvalStep_def Let_def)











text \<open>
  The first stage of the shipped list always throws: when executeClaudeCode fails (line
  567), when the tests fail (line 590), and, when both succeed, at line 631. So every run
  of the workflow ends in its first stage.
\<close>

lemma shipped_run_ends_in_first_stage:
  obtains r' err where
    "runStage (parseJSON env) (stageEnvs env 0) (hd (stages p)) (initialState, []) = (r', Some err)"
    and "developLLMWrapperWorkflow env p =
           (fst (catchBlock env r' err), Some (snd (catchBlock env r' err)))"
proof -
  let ?rs = "runStage (parseJSON env) (stageEnvs env 0) (hd (stages p)) (initialState, [])"
  have "snd ?rs \<noteq> None"
    by (rule runStage_throws_unless_documentation) (simp add: stages_first)
  then obtain r' err where rs: "?rs = (r', Some err)" by (cases ?rs) auto
  have l: "stageLoop (parseJSON env) (stageEnvs env) 0 [] (initialState, []) =
             ((initialState, []), None)" by simp
  have "runWorkflow env ([] @ hd (stages p) # tl (stages p)) =
          (fst (catchBlock env r' err), Some (snd (catchBlock env r' err)))"
    by (rule runWorkflow_stage_throws [OF l]) (use rs in simp)
  then have "developLLMWrapperWorkflow env p =
          (fst (catchBlock env r' err), Some (snd (catchBlock env r' err)))"
    using stages_split [of p] by (simp add: developLLMWrapperWorkflow_def)
  with rs that show ?thesis by blast
qed


lemma handler_idem: "handler sg (handler sg s) = handler sg s"
  by (cases sg) simp_all

lemma deliver_append: "deliver (xs @ ys) s = deliver ys (deliver xs s)"
  by (simp add: deliver_def)

lemma deliver_Cons: "deliver (sg # sigs) s = deliver sigs (handler sg s)"
  by (simp add: deliver_def)

lemma deliver_duplicate:
  "deliver (sigs1 @ sg # sg # sigs2) s = deliver (sigs1 @ sg # sigs2) s"
  by (simp add: deliver_append deliver_Cons handler_idem)


lemma beginStage_duplicate:
  "beginStage (e\<lparr>signals := sigs1 @ sg # sg # sigs2\<rparr>) st r =
   beginStage (e\<lparr>signals := sigs1 @ sg # sigs2\<rparr>) st r"
  by (simp add: beginStage_def deliver_duplicate Let_def split: sum.splits)

lemma steps_ignore_signals:
  "executeStep (e\<lparr>signals := sigs\<rparr>) st r = executeStep e st r"
  "verifyStep parse (e\<lparr>signals := sigs\<rparr>) st r = verifyStep parse e st r"
  "metricsStep (e\<lparr>signals := sigs\<rparr>) st result r = metricsStep e st result r"
  by (simp_all add: executeStep_def verifyStep_def metricsStep_def split: sum.splits)

lemma runStage_duplicate:
  "runStage parse (e\<lparr>signals := sigs1 @ sg # sg # sigs2\<rparr>) st r =
   runStage parse (e\<lparr>signals := sigs1 @ sg # sigs2\<rparr>) st r"
  unfolding runStage_def beginStage_duplicate steps_ignore_signals ..

lemma stageLoop_cong:
  assumes "\<And>i st r. runStage parse (f i) st r = runStage parse (g i) st r"
  shows "stageLoop parse f i sts r = stageLoop parse g i sts r"
  by (induction sts arbitrary: i r) (simp_all add: assms split: prod.splits option.splits)

lemma catchBlock_ignores_signals:
  "catchBlock (withSignals env i sigs) r err = catchBlock env r err"
  "catchBlock (env\<lparr>finalSignals := sigs\<rparr>) r err = catchBlock env r err"
  by (simp_all add: catchBlock_def withSignals_def)

lemma tryBlock_duplicate:
  "tryBlock (withSignals env i (sigs1 @ sg # sg # sigs2)) sts r =
   tryBlock (withSignals env i (sigs1 @ sg # sigs2)) sts r"
proof -
  have "stageLoop (parseJSON env)
          ((stageEnvs env)(i := (stageEnvs env i)\<lparr>signals := sigs1 @ sg # sg # sigs2\<rparr>)) 0 sts r =
        stageLoop (parseJSON env)
          ((stageEnvs env)(i := (stageEnvs env i)\<lparr>signals := sigs1 @ sg # sigs2\<rparr>)) 0 sts r"
    by (rule stageLoop_cong) (simp add: runStage_duplicate)
  then show ?thesis
    by (simp add: tryBlock_def withSignals_def Let_def split: prod.splits option.splits)
qed

lemma tryBlock_final_duplicate:
  "tryBlock (env\<lparr>finalSignals := sigs1 @ sg # sg # sigs2\<rparr>) sts r =
   tryBlock (env\<lparr>finalSignals := sigs1 @ sg # sigs2\<rparr>) sts r"
  by (simp add: tryBlock_def Let_def deliver_duplicate split: prod.splits option.splits)

lemma runWorkflow_duplicate:
  "runWorkflow (withSignals env i (sigs1 @ sg # sg # sigs2)) sts =
   runWorkflow (withSignals env i (sigs1 @ sg # sigs2)) sts"
  unfolding runWorkflow_def tryBlock_duplicate catchBlock_ignores_signals ..

lemma runWorkflow_final_duplicate:
  "runWorkflow (env\<lparr>finalSignals := sigs1 @ sg # sg # sigs2\<rparr>) sts =
   runWorkflow (env\<lparr>finalSignals := sigs1 @ sg # sigs2\<rparr>) sts"
  unfolding runWorkflow_def tryBlock_final_duplicate catchBlock_ignores_signals ..

lemma shipped_run_depends_on_first_stage:
  assumes "parseJSON env' = parseJSON env" and "stageEnvs env' 0 = stageEnvs env 0"
    and "failureMetricsAppend env' = failureMetricsAppend env"
  shows "developLLMWrapperWorkflow env' p = developLLMWrapperWorkflow env p"
proof -
  obtain r' err where
    rs: "runStage (parseJSON env) (stageEnvs env 0) (hd (stages p)) (initialState, []) =
           (r', Some err)"
    and w: "developLLMWrapperWorkflow env p =
           (fst (catchBlock env r' err), Some (snd (catchBlock env r' err)))"
    by (rule shipped_run_ends_in_first_stage)
  obtain q' err' where
    qs: "runStage (parseJSON env') (stageEnvs env' 0) (hd (stages p)) (initialState, []) =
           (q', Some err')"
    and v: "developLLMWrapperWorkflow env' p =
           (fst (catchBlock env' q' err'), Some (snd (catchBlock env' q' err')))"
    by (rule shipped_run_ends_in_first_stage)
  from rs qs assms have "q' = r'" and "err' = err" by simp_all
  moreover have "catchBlock env' r' err = catchBlock env r' err"
    using assms(3) by (simp add: catchBlock_def)
  ultimately show ?thesis using w v by simp
qed

text \<open>
  Claim C4. Each handler is an idempotent assignment, so handling the same signal twice in
  a row changes neither the state nor the run: this holds for the signals of any stage and
  for those handled after the stage loop, over any stage list, and so for the workflow as
  shipped. In the workflow as shipped the signals of the later stages and those after the
  loop are never handled, since every run ends in its first stage: every signal that is
  handled is handled in that stage, where nothing resets the decision.
\<close>

theorem duplicate_signal_is_a_no_op:
  "handler sg (handler sg s) = handler sg s
   \<and> runWorkflow (withSignals env i (sigs1 @ sg # sg # sigs2)) sts =
       runWorkflow (withSignals env i (sigs1 @ sg # sigs2)) sts
   \<and> runWorkflow (env\<lparr>finalSignals := sigs1 @ sg # sg # sigs2\<rparr>) sts =
       runWorkflow (env\<lparr>finalSignals := sigs1 @ sg # sigs2\<rparr>) sts
   \<and> developLLMWrapperWorkflow (withSignals env i (sigs1 @ sg # sg # sigs2)) p =
       developLLMWrapperWorkflow (withSignals env i (sigs1 @ sg # sigs2)) p
   \<and> developLLMWrapperWorkflow (withSignals env (Suc i) sigs) p = developLLMWrapperWorkflow env p
   \<and> developLLMWrapperWorkflow (env\<lparr>finalSignals := sigs\<rparr>) p = developLLMWrapperWorkflow env p"
proof -
  have a: "developLLMWrapperWorkflow (withSignals env (Suc i) sigs) p =
        developLLMWrapperWorkflow env p"
    by (rule shipped_run_depends_on_first_stage) (simp_all add: withSignals_def)
  have b: "developLLMWrapperWorkflow (env\<lparr>finalSignals := sigs\<rparr>) p =
        developLLMWrapperWorkflow env p"
    by (rule shipped_run_depends_on_first_stage) simp_all
  show ?thesis
    using a b
    by (simp add: handler_idem runWorkflow_duplicate runWorkflow_final_duplicate
          developLLMWrapperWorkflow_def)
qed

section \<open>Runs of the workflow as shipped\<close>

lemma shipped_run_from_first_stage:
  assumes "runStage (parseJSON env) (stageEnvs env 0) (hd (stages p)) (initialState, []) =
             (r', Some err)"
  shows "developLLMWrapperWorkflow env p =
           (fst (catchBlock env r' err), Some (snd (catchBlock env r' err)))"
proof -
  have l: "stageLoop (parseJSON env) (stageEnvs env) 0 [] (initialState, []) =
             ((initialState, []), None)" by simp
  have "runWorkflow env ([] @ hd (stages p) # tl (stages p)) =
          (fst (catchBlock env r' err), Some (snd (catchBlock env r' err)))"
    by (rule runWorkflow_stage_throws [OF l]) (use assms in simp)
  then show ?thesis
    using stages_split [of p] by (simp add: developLLMWrapperWorkflow_def)
qed

lemma catchBlock_recorded:
  assumes "failureMetricsAppend env 1 = None"
  shows "catchBlock env r err =
           ((fst r, snd r @ [CaptureMetrics (FailureMetrics (currentStage (fst r)) (message err)
                               (totalTokensUsed (fst r)) (totalCost (fst r)))]), err)"
  using assms by (simp add: catchBlock_def Let_def proxy_retry_unfold)

lemma gitDown_run:
  "developLLMWrapperWorkflow gitDownEnv ''/tmp/project'' =
     ((\<lparr>currentStage = ''scaffold'', totalTokensUsed = 69, totalCost = 621 / 1000000,
        testsPassedCount = 1,
        snapshots = [''snapshot-'' @ string_of_nat 1700000000000], approved = None\<rparr>,
       [EstimateCost (prompt (hd (stages ''/tmp/project''))) High, CreateSnapshot,
        ExecuteClaudeCode (prompt (hd (stages ''/tmp/project''))), RunTests,
        CaptureMetrics (FailureMetrics ''scaffold'' ''testResult is not defined''
          69 (621 / 1000000))]),
      Some (ReferenceError ''testResult''))"
proof -
  have p: "parseJSON gitDownEnv = parseEmptyObject"
    and f: "failureMetricsAppend gitDownEnv 1 = None"
    by (simp_all add: gitDownEnv_def calmEnv_def)
  show ?thesis
    using shipped_run_from_first_stage [of gitDownEnv "''/tmp/project''", unfolded p,
            OF gitDown_first_stage]
    by (simp add: catchBlock_recorded [OF f])
qed

lemma gitHangs_stage:
  assumes "name st = ''scaffold''" and "criticalPath st"
  shows "runStage parseEmptyObject (stageEnvs gitHangsEnv 0) st (initialState, []) =
     ((\<lparr>currentStage = ''scaffold'', totalTokensUsed = 0, totalCost = 0, testsPassedCount = 0,
        snapshots = [], approved = None\<rparr>,
       [EstimateCost (prompt st) High, CreateSnapshot]),
      Some (ActivityFailure TimeoutFailure))"
  using assms by (simp add: run_eval gitHangsEnv_def calmEnv_def calmStage_def)

lemma gitHangs_run:
  "developLLMWrapperWorkflow gitHangsEnv ''/tmp/project'' =
     ((\<lparr>currentStage = ''scaffold'', totalTokensUsed = 0, totalCost = 0, testsPassedCount = 0,
        snapshots = [], approved = None\<rparr>,
       [EstimateCost (prompt (hd (stages ''/tmp/project''))) High, CreateSnapshot,
        CaptureMetrics (FailureMetrics ''scaffold'' ''Activity task failed'' 0 0)]),
      Some (ActivityFailure TimeoutFailure))"
proof -
  have p: "parseJSON gitHangsEnv = parseEmptyObject"
    and f: "failureMetricsAppend gitHangsEnv 1 = None"
    by (simp_all add: gitHangsEnv_def calmEnv_def)
  show ?thesis
    using shipped_run_from_first_stage [of gitHangsEnv "''/tmp/project''", unfolded p,
            OF gitHangs_stage [OF stages_first(1) stages_first(2)]]
    by (simp add: catchBlock_recorded [OF f])
qed

theorem snapshot_is_committed_when_git_can_run_witness:
  "criticalPath (hd (stages ''/tmp/project''))
   \<and> estimateCostCompletes (stageEnvs gitDownEnv 0) 1
   \<and> snapshotRuns (stageEnvs gitDownEnv 0) 1 = SnapshotRan 1700000000000 False False cleanRepo
   \<and> workTree cleanRepo = headTree cleanRepo
   \<and> fst (createSnapshot 1700000000000 True True cleanRepo) =
       ''snapshot-'' @ string_of_nat 1700000000000
   \<and> commits (snd (createSnapshot 1700000000000 True True cleanRepo)) =
       commits cleanRepo
         @ [(''Snapshot: snapshot-'' @ string_of_nat 1700000000000, workTree cleanRepo)]
   \<and> validRef (snd (createSnapshot 1700000000000 True True cleanRepo))
        (''snapshot-'' @ string_of_nat 1700000000000)
   \<and> snapshots (fst (fst (runStage parseEmptyObject (stageEnvs gitDownEnv 0)
          (hd (stages ''/tmp/project'')) (initialState, [])))) =
       [''snapshot-'' @ string_of_nat 1700000000000]
   \<and> snd (fst (runStage parseEmptyObject (stageEnvs gitDownEnv 0)
          (hd (stages ''/tmp/project'')) (initialState, []))) =
       [EstimateCost (prompt (hd (stages ''/tmp/project''))) High, CreateSnapshot,
        ExecuteClaudeCode (prompt (hd (stages ''/tmp/project''))), RunTests]"
proof -
  let ?e = "stageEnvs gitDownEnv 0"
  have c: "criticalPath (hd (stages ''/tmp/project''))" by (rule stages_first(2))
  have e1: "estimateCostCompletes ?e 1"
    and s1: "snapshotRuns ?e 1 = SnapshotRan 1700000000000 False False cleanRepo"
    by (simp_all add: gitDownEnv_def calmEnv_def calmStage_def)
  have e: "estimateCostCompletes ?e 1 \<or> estimateCostCompletes ?e 2 \<or> estimateCostCompletes ?e 3"
    using e1 by simp
  have s: "snapshotRuns ?e 1 \<noteq> SnapshotTimedOut \<or> snapshotRuns ?e 2 \<noteq> SnapshotTimedOut
         \<or> snapshotRuns ?e 3 \<noteq> SnapshotTimedOut"
    using s1 by simp
  have h: "workTree cleanRepo = headTree cleanRepo"
    by (simp add: cleanRepo_def headTree_def)
  from snapshot_is_committed_when_git_can_run [OF c e s,
      of 1700000000000 True True cleanRepo parseEmptyObject "(initialState, [])"]
  have "fst (createSnapshot 1700000000000 True True cleanRepo) =
       ''snapshot-'' @ string_of_nat 1700000000000"
    and "commits (snd (createSnapshot 1700000000000 True True cleanRepo)) =
       commits cleanRepo
         @ [(''Snapshot: snapshot-'' @ string_of_nat 1700000000000, workTree cleanRepo)]"
    and "validRef (snd (createSnapshot 1700000000000 True True cleanRepo))
        (''snapshot-'' @ string_of_nat 1700000000000)"
    by simp_all
  with c e1 s1 h show ?thesis
    by (simp add: gitDown_first_stage)
qed

text \<open>
  Claim C9, as stated, fails. In the run of the workflow in which the git commands cannot
  run, createSnapshot returns an id that names no commit, and the workflow records it as
  its snapshot. In the run in which the git commands hang on every attempt, the
  createSnapshot activity fails, and the workflow does not go on to execute the stage: it
  throws.
\<close>

theorem failed_snapshot_names_no_commit:
  "snapshotRuns (stageEnvs gitDownEnv 0) 1 = SnapshotRan 1700000000000 False False cleanRepo
   \<and> createSnapshot 1700000000000 False False cleanRepo =
       (''snapshot-'' @ string_of_nat 1700000000000, cleanRepo)
   \<and> \<not> validRef cleanRepo (''snapshot-'' @ string_of_nat 1700000000000)
   \<and> snapshots (fst (fst (developLLMWrapperWorkflow gitDownEnv ''/tmp/project''))) =
       [''snapshot-'' @ string_of_nat 1700000000000]
   \<and> developLLMWrapperWorkflow gitHangsEnv ''/tmp/project'' =
       ((\<lparr>currentStage = ''scaffold'', totalTokensUsed = 0, totalCost = 0,
          testsPassedCount = 0, snapshots = [], approved = None\<rparr>,
         [EstimateCost (prompt (hd (stages ''/tmp/project''))) High, CreateSnapshot,
          CaptureMetrics (FailureMetrics ''scaffold'' ''Activity task failed'' 0 0)]),
        Some (ActivityFailure TimeoutFailure))"
proof -
  have "snapshotRuns (stageEnvs gitDownEnv 0) 1 = SnapshotRan 1700000000000 False False cleanRepo"
    by (simp add: gitDownEnv_def calmEnv_def calmStage_def)
  moreover have "createSnapshot 1700000000000 False False cleanRepo =
       (''snapshot-'' @ string_of_nat 1700000000000, cleanRepo)"
    by (simp add: createSnapshot_def gitAddAll_def)
  moreover have "\<not> validRef cleanRepo (''snapshot-'' @ string_of_nat 1700000000000)"
    by (simp add: validRef_def cleanRepo_def)
  ultimately show ?thesis
    by (simp add: gitDown_run gitHangs_run)
qed

section \<open>What is counted\<close>


lemma runStage_usage_begin_failed:
  assumes "beginStage e st r = (r0, Some err)"
  shows "totalTokensUsed (fst (fst (runStage parse e st r))) = totalTokensUsed (fst r)
         \<and> totalCost (fst (fst (runStage parse e st r))) = totalCost (fst r)"
  using assms beginStage_fields(1,2) [of e st r] by (simp add: runStage_def)

lemma runStage_usage:
  assumes "beginStage e st r = (r0, None)"
  shows "totalTokensUsed (fst (fst (runStage parse e st r))) =
           totalTokensUsed (fst (fst (executeStep e st r0)))
         \<and> totalCost (fst (fst (runStage parse e st r))) =
           totalCost (fst (fst (executeStep e st r0)))"
proof (cases rule: runStage_elim [of e st r parse])
  case (begin_fail r0' err)
  with assms show ?thesis by simp
next
  case (exec_fail r0' r1 err)
  with assms show ?thesis by simp
next
  case (verify_fail r0' r1 result r2 err)
  with assms verifyStep_usage [of parse e st r1] show ?thesis by simp
next
  case (approval_fail r0' r1 result r2 r3 err)
  with assms verifyStep_usage [of parse e st r1] approvalStep_usage [of st r2]
  show ?thesis by simp
next
  case (metrics_fail r0' r1 result r2 r3 r4 err)
  with assms verifyStep_usage [of parse e st r1] approvalStep_usage [of st r2]
    metricsStep_state [of e st result r3]
  show ?thesis by simp
next
  case (finished r0' r1 result r2 r3 r4)
  with assms verifyStep_usage [of parse e st r1] approvalStep_usage [of st r2]
    metricsStep_state [of e st result r3]
  show ?thesis by (simp add: cooldownStep_state)
qed

text \<open>
  Claim C7, as the code has it. When the executeClaudeCode call of a stage returns a
  result, its tokens and its cost are added to the totals, whatever happens later in the
  stage (tests passed or failed, approval or rejection, the metrics capture). When the call
  fails for good, or is not reached because the cost estimate or the snapshot failed, the
  totals stay as they were: the failed attempts return no usage record. The record the
  \<^verbatim>\<open>catch\<close> captures on a failure carries the cumulative tokens and cost of the run, not
  the usage record of the stage.
\<close>

theorem usage_is_counted_when_execute_returns:
  "(case beginStage e st r of
      (r0, Some err) \<Rightarrow>
        totalTokensUsed (fst (fst (runStage parse e st r))) = totalTokensUsed (fst r)
        \<and> totalCost (fst (fst (runStage parse e st r))) = totalCost (fst r)
    | (r0, None) \<Rightarrow>
        (case snd (executeStep e st r0) of
           Inr result \<Rightarrow>
             totalTokensUsed (fst (fst (runStage parse e st r))) =
               totalTokensUsed (fst r) + tokensUsed result
             \<and> totalCost (fst (fst (runStage parse e st r))) = totalCost (fst r) + cost result
         | Inl err \<Rightarrow>
             totalTokensUsed (fst (fst (runStage parse e st r))) = totalTokensUsed (fst r)
             \<and> totalCost (fst (fst (runStage parse e st r))) = totalCost (fst r)))
   \<and> snd (fst (catchBlock env r' err')) =
       snd r' @ [CaptureMetrics (FailureMetrics (currentStage (fst r')) (message err')
                   (totalTokensUsed (fst r')) (totalCost (fst r')))]"
proof -
  obtain r0 b where be: "beginStage e st r = (r0, b)" by (cases "beginStage e st r")
  have f: "totalTokensUsed (fst r0) = totalTokensUsed (fst r)"
          "totalCost (fst r0) = totalCost (fst r)"
    using beginStage_fields(1,2) [of e st r] be by simp_all
  show ?thesis
  proof (cases b)
    case (Some err)
    with be runStage_usage_begin_failed [of e st r r0 err parse] show ?thesis
      by (simp add: catchBlock_events)
  next
    case None
    with be runStage_usage [of e st r r0 parse] executeStep_usage [of e st r0] f
    show ?thesis
      by (simp add: catchBlock_events split: sum.splits)
  qed
qed

lemma claudeDown_stage:
  assumes "name st = ''scaffold''" and "criticalPath st"
  shows "runStage parseEmptyObject (stageEnvs claudeDownEnv 0) st (initialState, []) =
     ((\<lparr>currentStage = ''scaffold'', totalTokensUsed = 0, totalCost = 0, testsPassedCount = 0,
        snapshots = [''snapshot-'' @ string_of_nat 1700000000000], approved = None\<rparr>,
       [EstimateCost (prompt st) High, CreateSnapshot, ExecuteClaudeCode (prompt st)]),
      Some (ActivityFailure (Error ''Claude Code execution failed: rate limit exceeded'')))"
  using assms by (simp add: run_eval claudeDownEnv_def calmEnv_def calmStage_def)

lemma failingTests_stage:
  assumes "name st = ''scaffold''" and "criticalPath st"
  shows "runStage parseEmptyObject (stageEnvs failingTestsEnv 0) st (initialState, []) =
     ((\<lparr>currentStage = ''scaffold'', totalTokensUsed = estimateTokens (prompt st @ ''done''),
        totalCost = calculateCost (estimateTokens (prompt st @ ''done'')) ''claude-sonnet-4-5'',
        testsPassedCount = 0,
        snapshots = [''snapshot-'' @ string_of_nat 1700000000000], approved = None\<rparr>,
       [EstimateCost (prompt st) High, CreateSnapshot, ExecuteClaudeCode (prompt st), RunTests]),
      Some (Error ''Critical stage scaffold failed tests''))"
  using assms
  by (simp add: run_eval failingTestsEnv_def failingTestsStage_def calmEnv_def calmStage_def)

text \<open>
  Claim C7, as stated, fails. In the run of the workflow in which \<^verbatim>\<open>claude\<close> fails on all
  three attempts, nothing is added to the totals and the only record captured reports 0
  tokens and 0 cost. In the run in which the first stage executes (69 tokens, 1500 ms, one
  file, 10 lines added) and then fails its tests, the tokens and the cost are in the
  totals, but the usage record is not captured: the only record is the failure record,
  which has neither the duration nor the file and line counts.
\<close>

theorem failed_attempts_are_not_counted:
  "developLLMWrapperWorkflow claudeDownEnv ''/tmp/project'' =
     ((\<lparr>currentStage = ''scaffold'', totalTokensUsed = 0, totalCost = 0, testsPassedCount = 0,
        snapshots = [''snapshot-'' @ string_of_nat 1700000000000], approved = None\<rparr>,
       [EstimateCost (prompt (hd (stages ''/tmp/project''))) High, CreateSnapshot,
        ExecuteClaudeCode (prompt (hd (stages ''/tmp/project''))),
        CaptureMetrics (FailureMetrics ''scaffold'' ''Activity task failed'' 0 0)]),
      Some (ActivityFailure (Error ''Claude Code execution failed: rate limit exceeded'')))
   \<and> developLLMWrapperWorkflow failingTestsEnv ''/tmp/project'' =
     ((\<lparr>currentStage = ''scaffold'', totalTokensUsed = 69, totalCost = 621 / 1000000,
        testsPassedCount = 0,
        snapshots = [''snapshot-'' @ string_of_nat 1700000000000], approved = None\<rparr>,
       [EstimateCost (prompt (hd (stages ''/tmp/project''))) High, CreateSnapshot,
        ExecuteClaudeCode (prompt (hd (stages ''/tmp/project''))), RunTests,
        CaptureMetrics (FailureMetrics ''scaffold'' ''Critical stage scaffold failed tests''
          69 (621 / 1000000))]),
      Some (Error ''Critical stage scaffold failed tests''))"
proof -
  let ?p = "''/tmp/project''"
  have p1: "parseJSON claudeDownEnv = parseEmptyObject"
    and f1: "failureMetricsAppend claudeDownEnv 1 = None"
    by (simp_all add: claudeDownEnv_def calmEnv_def)
  have p2: "parseJSON failingTestsEnv = parseEmptyObject"
    and f2: "failureMetricsAppend failingTestsEnv 1 = None"
    by (simp_all add: failingTestsEnv_def calmEnv_def)
  have a: "developLLMWrapperWorkflow claudeDownEnv ?p =
     ((\<lparr>currentStage = ''scaffold'', totalTokensUsed = 0, totalCost = 0, testsPassedCount = 0,
        snapshots = [''snapshot-'' @ string_of_nat 1700000000000], approved = None\<rparr>,
       [EstimateCost (prompt (hd (stages ?p))) High, CreateSnapshot,
        ExecuteClaudeCode (prompt (hd (stages ?p))),
        CaptureMetrics (FailureMetrics ''scaffold'' ''Activity task failed'' 0 0)]),
      Some (ActivityFailure (Error ''Claude Code execution failed: rate limit exceeded'')))"
    using shipped_run_from_first_stage [of claudeDownEnv ?p, unfolded p1,
            OF claudeDown_stage [OF stages_first(1) stages_first(2)]]
    by (simp add: catchBlock_recorded [OF f1])
  have b: "developLLMWrapperWorkflow failingTestsEnv ?p =
     ((\<lparr>currentStage = ''scaffold'', totalTokensUsed = 69, totalCost = 621 / 1000000,
        testsPassedCount = 0,
        snapshots = [''snapshot-'' @ string_of_nat 1700000000000], approved = None\<rparr>,
       [EstimateCost (prompt (hd (stages ?p))) High, CreateSnapshot,
        ExecuteClaudeCode (prompt (hd (stages ?p))), RunTests,
        CaptureMetrics (FailureMetrics ''scaffold'' ''Critical stage scaffold failed tests''
          69 (621 / 1000000))]),
      Some (Error ''Critical stage scaffold failed tests''))"
    using shipped_run_from_first_stage [of failingTestsEnv ?p, unfolded p2,
            OF failingTests_stage [OF stages_first(1) stages_first(2)]]
      scaffold_tokens scaffold_cost
    by (simp add: catchBlock_recorded [OF f2])
  from a b show ?thesis by blast
qed

section \<open>Parallel feature development\<close>

lemma Promise_all_fulfilled:
  "(\<forall>p \<in> set ps. \<not> isl p) \<Longrightarrow> Promise_all ps = Inr (map projr ps)"
proof (induction ps)
  case Nil
  then show ?case by simp
next
  case (Cons p ps)
  then show ?case by (cases p) simp_all
qed

lemma Promise_all_rejected:
  "(\<exists>p \<in> set ps. isl p) \<Longrightarrow> isl (Promise_all ps)"
proof (induction ps)
  case Nil
  then show ?case by simp
next
  case (Cons p ps)
  then show ?case by (cases p) (auto split: sum.splits)
qed

lemma featureBranch_fulfilled:
  "\<not> isl (featureBranch parse e i f) \<Longrightarrow>
   featureBranch parse e i f =
     Inr \<lparr>feature = f, branch = branchName i f,
          fr_success = success (runTests parse (branchTestRun e) (branchTestElapsed e))\<rparr>"
  by (auto simp: featureBranch_def Let_def split: sum.splits)

lemma zip_upt_map: "zip [0..<length xs] xs = map (\<lambda>i. (i, xs ! i)) [0..<length xs]"
  by (rule nth_equalityI) simp_all

text \<open>
  Claim C8, as the code has it. When the callback of every feature returns (its commands
  succeed; its tests may fail), the join holds one record per feature, in the order of the
  features, with the feature, the branch name \<^verbatim>\<open>feature-<index>-<feature>\<close> and the
  outcome of that feature's own tests: a feature whose tests fail is marked failed and
  changes no other record. The records are printed; the function itself returns nothing.
\<close>

theorem every_branch_returning_gives_one_record_each:
  assumes "\<forall>i < length features. \<not> isl (featureBranch parse (envs i) i (features ! i))"
  shows "parallelFeatureDevelopment parse envs features =
           (Inr (),
            map (\<lambda>i. \<lparr>feature = features ! i, branch = branchName i (features ! i),
                       fr_success = success (runTests parse (branchTestRun (envs i))
                                               (branchTestElapsed (envs i)))\<rparr>)
                [0..<length features])"
proof -
  let ?ps = "map (\<lambda>(index, f). featureBranch parse (envs index) index f)
                 (zip [0..<length features] features)"
  have ps: "?ps = map (\<lambda>i. featureBranch parse (envs i) i (features ! i)) [0..<length features]"
    by (simp add: zip_upt_map)
  have "\<forall>p \<in> set ?ps. \<not> isl p"
    using assms unfolding ps by auto
  then have "Promise_all ?ps = Inr (map projr ?ps)" by (rule Promise_all_fulfilled)
  also have "map projr ?ps =
      map (\<lambda>i. \<lparr>feature = features ! i, branch = branchName i (features ! i),
                 fr_success = success (runTests parse (branchTestRun (envs i))
                                         (branchTestElapsed (envs i)))\<rparr>)
          [0..<length features]"
    unfolding ps using assms by (simp add: featureBranch_fulfilled)
  finally show ?thesis by (simp add: parallelFeatureDevelopment_def)
qed

lemma branchName_examples:
  "branchName 0 ''auth'' = ''feature-0-auth''"
  "branchName 1 ''rate limit'' = ''feature-1-rate-limit''"
  "branchName 2 ''cache'' = ''feature-2-cache''"
  "branchName (Suc 0) ''rate limit'' = ''feature-1-rate-limit''"
  "branchName (Suc (Suc 0)) ''cache'' = ''feature-2-cache''"
  by code_simp+

lemmas branch_eval =
  parallelFeatureDevelopment_def featureBranch_def proxy_retry_unfold runTests_def
  parseTestResults_def parseFields_def parseEmptyObject_def js_or_def Let_def
  calmBranch_def failingTestsBranch_def claudeDownBranch_def threeFeatures_def

theorem every_branch_returning_gives_one_record_each_witness:
  "length threeFeatures = 3
   \<and> \<not> isl (featureBranch parseEmptyObject calmBranch 0 (threeFeatures ! 0))
   \<and> \<not> isl (featureBranch parseEmptyObject failingTestsBranch 1 (threeFeatures ! 1))
   \<and> \<not> isl (featureBranch parseEmptyObject calmBranch 2 (threeFeatures ! 2))
   \<and> parallelFeatureDevelopment parseEmptyObject
         (\<lambda>i. if i = 1 then failingTestsBranch else calmBranch) threeFeatures =
       (Inr (),
        [\<lparr>feature = ''auth'', branch = ''feature-0-auth'', fr_success = True\<rparr>,
         \<lparr>feature = ''rate limit'', branch = ''feature-1-rate-limit'', fr_success = False\<rparr>,
         \<lparr>feature = ''cache'', branch = ''feature-2-cache'', fr_success = True\<rparr>])"
proof -
  have h: "\<forall>i < length threeFeatures.
      \<not> isl (featureBranch parseEmptyObject (if i = 1 then failingTestsBranch else calmBranch)
               i (threeFeatures ! i))"
    by (simp add: featureBranch_def proxy_retry_unfold Let_def calmBranch_def
          failingTestsBranch_def)
  have u: "[0..<length threeFeatures] = [0, 1, 2]"
    by (simp add: threeFeatures_def upt_rec)
  have each:
    "\<not> isl (featureBranch parseEmptyObject calmBranch 0 (threeFeatures ! 0))"
    "\<not> isl (featureBranch parseEmptyObject failingTestsBranch 1 (threeFeatures ! 1))"
    "\<not> isl (featureBranch parseEmptyObject calmBranch 2 (threeFeatures ! 2))"
    by (simp_all add: featureBranch_def proxy_retry_unfold Let_def calmBranch_def
          failingTestsBranch_def)
  have joined: "parallelFeatureDevelopment parseEmptyObject
         (\<lambda>i. if i = 1 then failingTestsBranch else calmBranch) threeFeatures =
       (Inr (),
        [\<lparr>feature = ''auth'', branch = ''feature-0-auth'', fr_success = True\<rparr>,
         \<lparr>feature = ''rate limit'', branch = ''feature-1-rate-limit'', fr_success = False\<rparr>,
         \<lparr>feature = ''cache'', branch = ''feature-2-cache'', fr_success = True\<rparr>])"
    using every_branch_returning_gives_one_record_each [OF h]
    by (simp add: u branchName_examples threeFeatures_def
          runTests_def parseTestResults_def parseFields_def parseEmptyObject_def js_or_def
          calmBranch_def failingTestsBranch_def)
  have "length threeFeatures = 3" by (simp add: threeFeatures_def)
  with each joined show ?thesis by blast
qed

lemma rejected_branch_rejects_the_join:
  assumes "i < length features" and "isl (featureBranch parse (envs i) i (features ! i))"
  shows "isl (fst (parallelFeatureDevelopment parse envs features))
         \<and> snd (parallelFeatureDevelopment parse envs features) = []"
proof -
  let ?ps = "map (\<lambda>(index, f). featureBranch parse (envs index) index f)
                 (zip [0..<length features] features)"
  have ps: "?ps = map (\<lambda>i. featureBranch parse (envs i) i (features ! i)) [0..<length features]"
    by (simp add: zip_upt_map)
  have "\<exists>p \<in> set ?ps. isl p"
    unfolding ps using assms by auto
  then have "isl (Promise_all ?ps)" by (rule Promise_all_rejected)
  then show ?thesis
    by (cases "Promise_all ?ps") (simp_all add: parallelFeatureDevelopment_def)
qed

text \<open>
  Claim C8, as stated, fails. Of three features, the second cannot be implemented
  (\<^verbatim>\<open>claude\<close> fails on each attempt) and the other two succeed: \<^verbatim>\<open>Promise.all\<close> rejects,
  the function throws the failure of the second feature, and no record is produced for
  the first and the third.
\<close>

theorem one_rejected_branch_rejects_the_join:
  "parallelFeatureDevelopment parseEmptyObject
     (\<lambda>i. if i = 1 then claudeDownBranch else calmBranch) threeFeatures =
   (Inl (ActivityFailure (Error ''Claude Code execution failed: rate limit exceeded'')), [])"
  by (simp add: branch_eval upt_rec)

end
